theory Spec2Isabelle
  imports Main
begin

section \<open>Data model\<close>

text \<open>
  The types of \<^verbatim>\<open>src/db_disabled/types.ts\<close>. A column of the board is a
  \<^emph>\<open>list\<close> whose \<^verbatim>\<open>type\<close> is its visibility: \<^verbatim>\<open>'open'\<close>,
  \<^verbatim>\<open>'closed'\<close> (restricted) or \<^verbatim>\<open>'hidden'\<close> (admin-only). Roles are
  \<^verbatim>\<open>'default' | 'mod' | 'admin'\<close>.
\<close>

datatype list_type = Open | Closed | Hidden

datatype user_role = Default | Mod | Admin

text \<open>
  The columns \<^verbatim>\<open>labels\<close>, \<^verbatim>\<open>attachments\<close> and \<^verbatim>\<open>members\<close> of a card hold
  JSON text. A JSON text is represented by the JavaScript value it encodes
  (\<^verbatim>\<open>JSON.stringify\<close> is injective and \<^verbatim>\<open>JSON.parse\<close> inverts it): \<open>Arr xs\<close>
  is an array of opaque references, \<open>Text v\<close> is the string whose content is the JSON
  text of \<open>v\<close> (the result of one more \<^verbatim>\<open>JSON.stringify\<close>). Both are truthy in
  JavaScript: an array always is, and a JSON text is never the empty string.
\<close>

datatype jsval = Arr "string list" | Text jsval

datatype action_kind =
  Created | Moved | Edited | Deleted | Restored | MemberAdded | MemberRemoved
  | DueDateChanged | LabelAdded | LabelRemoved

record action_details =
  ad_from :: "string option"
  ad_to :: "string option"
  ad_field :: "string option"
  ad_oldValue :: "string option"
  ad_newValue :: "string option"
  ad_memberName :: "string option"

record card_action =
  ca_id :: string
  ca_cardId :: string
  ca_userId :: string
  ca_username :: string
  ca_action :: action_kind
  ca_details :: "action_details option"
  ca_timestamp :: int

text \<open>
  \<^verbatim>\<open>KanbanCardData\<close> and \<^verbatim>\<open>KanbanListData\<close>, the shape of the in-memory snapshot.
  An optional field that is \<^verbatim>\<open>undefined\<close> is \<open>None\<close>. \<open>kc_dueDate\<close> is the
  instant of the \<^verbatim>\<open>Date\<close> in milliseconds. The presentation-only fields
  (\<^verbatim>\<open>assignees\<close>, \<^verbatim>\<open>priority\<close>, \<^verbatim>\<open>checklist\<close>, \<^verbatim>\<open>comments\<close>) are never
  written to the store and are left out.
\<close>

record kanban_card =
  kc_id :: string
  kc_title :: string
  kc_description :: "string option"
  kc_labels :: "jsval option"
  kc_dueDate :: "int option"
  kc_attachments :: "jsval option"
  kc_members :: "jsval option"
  kc_actions :: "card_action list option"

record kanban_list =
  kl_id :: string
  kl_title :: string
  kl_type :: list_type
  kl_cards :: "kanban_card list"
  kl_cardLimit :: "int option"

text \<open>
  The rows of the tables \<^verbatim>\<open>lists\<close> and \<^verbatim>\<open>cards\<close>. A nullable column is an
  option, \<open>None\<close> being SQL \<^verbatim>\<open>NULL\<close>. The columns \<^verbatim>\<open>created_at\<close> and
  \<^verbatim>\<open>updated_at\<close> are maintained by SQLite defaults and triggers and are read by
  nothing modelled here; they are left out. \<open>card_row\<close> is also the shape of the
  argument of \<^verbatim>\<open>createCard\<close> (\<^verbatim>\<open>Omit<Card, 'created_at' | 'updated_at'>\<close>).
\<close>

record list_row =
  lr_id :: string
  lr_board_id :: string
  lr_title :: string
  lr_type :: list_type
  lr_position :: int
  lr_card_limit :: "int option"

record card_row =
  cr_id :: string
  cr_list_id :: string
  cr_title :: string
  cr_description :: "string option"
  cr_position :: int
  cr_due_date :: "int option"
  cr_labels :: "jsval option"
  cr_attachments :: "jsval option"
  cr_members :: "jsval option"

text \<open>
  The durable store: each table is the list of its rows in insertion (rowid) order.
\<close>

record database =
  db_lists :: "list_row list"
  db_cards :: "card_row list"
  db_card_actions :: "card_action list"

text \<open>
  \<^verbatim>\<open>Partial<Pick<Card, 'title' | 'description' | 'position' | 'due_date' | 'labels' |
  'attachments' | 'members' | 'list_id'>>\<close>: a field that is absent (\<^verbatim>\<open>undefined\<close>)
  is \<open>None\<close>.
\<close>

record card_updates =
  cu_title :: "string option"
  cu_description :: "string option"
  cu_position :: "int option"
  cu_due_date :: "int option"
  cu_labels :: "jsval option"
  cu_attachments :: "jsval option"
  cu_members :: "jsval option"
  cu_list_id :: "string option"


section \<open>DatabaseService (src/db_disabled/services.ts)\<close>

text \<open>
  SQL \<^verbatim>\<open>COALESCE(?, col)\<close>: the bound parameter when it is not \<^verbatim>\<open>NULL\<close>,
  the column's current value otherwise. better-sqlite3 binds \<^verbatim>\<open>undefined\<close> and
  \<^verbatim>\<open>null\<close> as \<^verbatim>\<open>NULL\<close>. \<open>coalesce\<close> is for a \<^verbatim>\<open>NOT NULL\<close> column,
  \<open>coalesce_null\<close> for a nullable one.
\<close>

definition coalesce :: "'a option \<Rightarrow> 'a \<Rightarrow> 'a" where
  "coalesce p col = (case p of None \<Rightarrow> col | Some v \<Rightarrow> v)"

definition coalesce_null :: "'a option \<Rightarrow> 'a option \<Rightarrow> 'a option" where
  "coalesce_null p col = (case p of None \<Rightarrow> col | Some v \<Rightarrow> Some v)"

text \<open>
  The \<^verbatim>\<open>SET\<close> clause of \<^verbatim>\<open>updateCard\<close>, on the row it matches. The three JSON
  parameters are \<^verbatim>\<open>updates.labels ? JSON.stringify(updates.labels) : null\<close>; a
  \<open>jsval\<close> is truthy, so the parameter is \<^verbatim>\<open>NULL\<close> exactly when the field is absent.
\<close>

definition updateCard_row :: "card_updates \<Rightarrow> card_row \<Rightarrow> card_row" where
  "updateCard_row updates r =
     r\<lparr> cr_title := coalesce (cu_title updates) (cr_title r),
        cr_description := coalesce_null (cu_description updates) (cr_description r),
        cr_position := coalesce (cu_position updates) (cr_position r),
        cr_due_date := coalesce_null (cu_due_date updates) (cr_due_date r),
        cr_labels := coalesce_null (cu_labels updates) (cr_labels r),
        cr_attachments := coalesce_null (cu_attachments updates) (cr_attachments r),
        cr_members := coalesce_null (cu_members updates) (cr_members r),
        cr_list_id := coalesce (cu_list_id updates) (cr_list_id r) \<rparr>"

text \<open>
  \<^verbatim>\<open>updateCard(id, updates)\<close>: \<^verbatim>\<open>UPDATE cards SET ... WHERE id = ? RETURNING *\<close>.
  The result is the new store and the row returned (\<open>None\<close> for \<^verbatim>\<open>undefined\<close>,
  when no row has that id). The source passes the returned row through
  \<^verbatim>\<open>parseCardData\<close>, which decodes the JSON columns of the returned copy only.
\<close>

definition updateCard :: "database \<Rightarrow> string \<Rightarrow> card_updates \<Rightarrow> database \<times> card_row option" where
  "updateCard db ident updates =
     (db\<lparr> db_cards := map (\<lambda>r. if cr_id r = ident then updateCard_row updates r else r) (db_cards db) \<rparr>,
      map_option (updateCard_row updates) (find (\<lambda>r. cr_id r = ident) (db_cards db)))"

text \<open>
  \<^verbatim>\<open>createCard(card)\<close>: one \<^verbatim>\<open>INSERT\<close>. \<^verbatim>\<open>card.description || null\<close> and
  \<^verbatim>\<open>card.due_date || null\<close> turn the empty string and \<open>0\<close> into \<^verbatim>\<open>NULL\<close>.
\<close>

definition createCard :: "database \<Rightarrow> card_row \<Rightarrow> database" where
  "createCard db c =
     db\<lparr> db_cards := db_cards db @
       [c\<lparr> cr_description := (case cr_description c of
                    None \<Rightarrow> None | Some d \<Rightarrow> if d = [] then None else Some d),
              cr_due_date := (case cr_due_date c of
                    None \<Rightarrow> None | Some d \<Rightarrow> if d = 0 then None else Some d) \<rparr>] \<rparr>"

text \<open>
  \<^verbatim>\<open>deleteCard(id)\<close>: \<^verbatim>\<open>DELETE FROM cards WHERE id = ?\<close>, returning whether a row
  was deleted. The schema declares \<^verbatim>\<open>card_actions.card_id\<close> with
  \<^verbatim>\<open>ON DELETE CASCADE\<close>, so the card's ledger rows go with it.
\<close>

definition deleteCard :: "database \<Rightarrow> string \<Rightarrow> database \<times> bool" where
  "deleteCard db ident =
     (db\<lparr> db_cards := filter (\<lambda>r. cr_id r \<noteq> ident) (db_cards db),
          db_card_actions :=
            (if list_ex (\<lambda>r. cr_id r = ident) (db_cards db)
             then filter (\<lambda>a. ca_cardId a \<noteq> ident) (db_card_actions db)
             else db_card_actions db) \<rparr>,
      list_ex (\<lambda>r. cr_id r = ident) (db_cards db))"


text \<open>
  \<^verbatim>\<open>createList(list)\<close>: one \<^verbatim>\<open>INSERT\<close>; \<^verbatim>\<open>list.card_limit || null\<close>.
\<close>

definition createList :: "database \<Rightarrow> list_row \<Rightarrow> database" where
  "createList db l =
     db\<lparr> db_lists := db_lists db @
       [l\<lparr> lr_card_limit := (case lr_card_limit l of
                    None \<Rightarrow> None | Some n \<Rightarrow> if n = 0 then None else Some n) \<rparr>] \<rparr>"

text \<open>
  \<^verbatim>\<open>convertCardRowToKanbanCard\<close>: a JSON column that is \<^verbatim>\<open>NULL\<close> reads as the
  empty array; \<^verbatim>\<open>cardRow.description || undefined\<close>;
  \<^verbatim>\<open>cardRow.due_date ? new Date(cardRow.due_date * 1000) : undefined\<close>. The result
  has no \<^verbatim>\<open>actions\<close> field.
\<close>

definition convertCardRowToKanbanCard :: "card_row \<Rightarrow> kanban_card" where
  "convertCardRowToKanbanCard cardRow =
     \<lparr> kc_id = cr_id cardRow,
       kc_title = cr_title cardRow,
       kc_description = (case cr_description cardRow of
            None \<Rightarrow> None | Some d \<Rightarrow> if d = [] then None else Some d),
       kc_labels = Some (case cr_labels cardRow of None \<Rightarrow> Arr [] | Some v \<Rightarrow> v),
       kc_dueDate = (case cr_due_date cardRow of
            None \<Rightarrow> None | Some d \<Rightarrow> if d = 0 then None else Some (d * 1000)),
       kc_attachments = Some (case cr_attachments cardRow of None \<Rightarrow> Arr [] | Some v \<Rightarrow> v),
       kc_members = Some (case cr_members cardRow of None \<Rightarrow> Arr [] | Some v \<Rightarrow> v),
       kc_actions = None \<rparr>"

text \<open>
  \<^verbatim>\<open>getListsByBoard(boardId)\<close>: the lists of the board \<^verbatim>\<open>ORDER BY position ASC\<close>,
  each with its cards \<^verbatim>\<open>ORDER BY c.position ASC\<close>. SQL leaves the order of rows
  with equal positions open; \<open>sort_key\<close> is stable, so here such rows keep their
  insertion order.
\<close>

definition getListsByBoard :: "database \<Rightarrow> string \<Rightarrow> kanban_list list" where
  "getListsByBoard db boardId =
     (let board_lists = sort_key lr_position (filter (\<lambda>l. lr_board_id l = boardId) (db_lists db));
          allCards = sort_key cr_position
            (filter (\<lambda>c. list_ex (\<lambda>l. lr_id l = cr_list_id c \<and> lr_board_id l = boardId) (db_lists db))
               (db_cards db))
      in map (\<lambda>list.
            \<lparr> kl_id = lr_id list,
              kl_title = lr_title list,
              kl_type = lr_type list,
              kl_cards = map convertCardRowToKanbanCard
                           (filter (\<lambda>c. cr_list_id c = lr_id list) allCards),
              kl_cardLimit = (case lr_card_limit list of
                   None \<Rightarrow> None | Some n \<Rightarrow> if n = 0 then None else Some n) \<rparr>) board_lists)"

text \<open>
  \<^verbatim>\<open>saveKanbanData(boardId, lists)\<close>: in one transaction, delete the board's cards
  and lists, then insert every list with \<^verbatim>\<open>position: listIndex\<close> and every card with
  \<^verbatim>\<open>position: cardIndex\<close>. Deleting the cards takes their ledger rows with them
  (\<^verbatim>\<open>ON DELETE CASCADE\<close>). \<^verbatim>\<open>due_date\<close> is
  \<^verbatim>\<open>Math.floor(new Date(card.dueDate).getTime() / 1000)\<close>.
\<close>

definition saveKanbanData :: "database \<Rightarrow> string \<Rightarrow> kanban_list list \<Rightarrow> database" where
  "saveKanbanData db boardId lsts =
     (let board_lists = filter (\<lambda>l. lr_board_id l = boardId) (db_lists db);
          doomed = filter (\<lambda>c. list_ex (\<lambda>l. lr_id l = cr_list_id c) board_lists) (db_cards db);
          db1 = db\<lparr> db_cards :=
                      filter (\<lambda>c. \<not> list_ex (\<lambda>l. lr_id l = cr_list_id c) board_lists) (db_cards db),
                    db_card_actions :=
                      filter (\<lambda>a. \<not> list_ex (\<lambda>c. cr_id c = ca_cardId a) doomed) (db_card_actions db),
                    db_lists := filter (\<lambda>l. lr_board_id l \<noteq> boardId) (db_lists db) \<rparr>
      in foldl (\<lambda>d (listIndex, list).
           foldl (\<lambda>d' (cardIndex, c).
                createCard d'
                  \<lparr> cr_id = kc_id c,
                    cr_list_id = kl_id list,
                    cr_title = kc_title c,
                    cr_description = kc_description c,
                    cr_position = int cardIndex,
                    cr_due_date = map_option (\<lambda>ms. ms div 1000) (kc_dueDate c),
                    cr_labels = kc_labels c,
                    cr_attachments = kc_attachments c,
                    cr_members = kc_members c \<rparr>)
             (createList d
                \<lparr> lr_id = kl_id list,
                  lr_board_id = boardId,
                  lr_title = kl_title list,
                  lr_type = kl_type list,
                  lr_position = int listIndex,
                  lr_card_limit = kl_cardLimit list \<rparr>)
             (enumerate 0 (kl_cards list)))
         db1 (enumerate 0 lsts))"

text \<open>
  \<^verbatim>\<open>createCardAction\<close> inserts one ledger row; \<^verbatim>\<open>getCardActions(cardId)\<close> reads
  the card's rows \<^verbatim>\<open>ORDER BY timestamp DESC\<close>.
\<close>

definition createCardAction :: "database \<Rightarrow> card_action \<Rightarrow> database" where
  "createCardAction db a = db\<lparr> db_card_actions := db_card_actions db @ [a] \<rparr>"

definition getCardActions :: "database \<Rightarrow> string \<Rightarrow> card_action list" where
  "getCardActions db cardId =
     sort_key (\<lambda>a. - ca_timestamp a) (filter (\<lambda>a. ca_cardId a = cardId) (db_card_actions db))"


section \<open>The API boundary (src/api/client.ts, src/server.ts)\<close>

text \<open>
  What one operation of the engine finds around it: the clock, the random suffixes of
  generated identifiers (\<open>env_random k\<close> is the \<open>k\<close>-th
  \<^verbatim>\<open>Math.random().toString(36).substr(2, 9)\<close> of the operation), the result of
  \<^verbatim>\<open>getCurrentUser()\<close> (id and username, \<open>None\<close> for \<^verbatim>\<open>null\<close>), and which
  requests to the durable store succeed. A request fails when the network, the server
  or a constraint of the schema refuses it (\<^verbatim>\<open>request\<close> in client.ts then throws);
  \<open>env_message\<close> is the message of that error. A request that succeeds takes effect
  as the service method is written. The clock does not advance within one operation.
\<close>

datatype request =
  ReqGetLists | ReqSaveKanban | ReqCreateCard | ReqUpdateCard | ReqDeleteCard
  | ReqCreateAction | ReqGetActions string

record env =
  env_now :: nat
  env_random :: "nat \<Rightarrow> string"
  env_currentUser :: "(string \<times> string) option"
  env_ok :: "request \<Rightarrow> bool"
  env_message :: string

definition DEFAULT_BOARD_ID :: string where
  "DEFAULT_BOARD_ID = ''default''"

function string_of_nat :: "nat \<Rightarrow> string" where
  "string_of_nat n =
     (if n < 10 then [char_of (48 + n)]
      else string_of_nat (n div 10) @ [char_of (48 + n mod 10)])"
  by pat_completeness auto
termination
  by (relation "measure id") auto

declare string_of_nat.simps [simp del]

text \<open>
  \<^verbatim>\<open>`card_${Date.now()}_${Math.random().toString(36).substr(2, 9)}`\<close>
\<close>

definition generateCardId :: "env \<Rightarrow> string" where
  "generateCardId e = ''card_'' @ string_of_nat (env_now e) @ ''_'' @ env_random e 0"

text \<open>
  \<^verbatim>\<open>GET /api/boards/:boardId/lists\<close>: \<^verbatim>\<open>getListsByBoard\<close>, then every card's
  labels are made an array (a string is parsed once more).
\<close>

definition normalizeLabels :: "jsval option \<Rightarrow> jsval option" where
  "normalizeLabels l =
     (case l of
        Some (Text v) \<Rightarrow> Some v
      | Some (Arr xs) \<Rightarrow> Some (Arr xs)
      | None \<Rightarrow> Some (Arr []))"

definition server_getLists :: "database \<Rightarrow> kanban_list list" where
  "server_getLists db =
     map (\<lambda>list. list\<lparr> kl_cards :=
            map (\<lambda>c. c\<lparr> kc_labels := normalizeLabels (kc_labels c) \<rparr>) (kl_cards list) \<rparr>)
       (getListsByBoard db DEFAULT_BOARD_ID)"

definition api_getListsByBoard :: "env \<Rightarrow> database \<Rightarrow> kanban_list list option" where
  "api_getListsByBoard e db = (if env_ok e ReqGetLists then Some (server_getLists db) else None)"

definition api_saveKanbanData :: "env \<Rightarrow> database \<Rightarrow> kanban_list list \<Rightarrow> database option" where
  "api_saveKanbanData e db lsts =
     (if env_ok e ReqSaveKanban then Some (saveKanbanData db DEFAULT_BOARD_ID lsts) else None)"

text \<open>
  \<^verbatim>\<open>POST /api/cards\<close>. The handler keeps the id of the body unless it is empty,
  takes \<^verbatim>\<open>description || null\<close>, \<^verbatim>\<open>position || 0\<close>, \<^verbatim>\<open>due_date || null\<close>,
  encodes the labels (\<^verbatim>\<open>createCard\<close> then encodes them again), and passes neither
  attachments nor members on.
\<close>

definition api_createCard :: "env \<Rightarrow> database \<Rightarrow> card_row \<Rightarrow> database option" where
  "api_createCard e db body =
     (if env_ok e ReqCreateCard
      then Some (createCard db
             (body\<lparr> cr_id := (if cr_id body = [] then generateCardId e else cr_id body),
                    cr_labels := map_option Text (cr_labels body),
                    cr_attachments := None,
                    cr_members := None \<rparr>))
      else None)"

text \<open>
  \<^verbatim>\<open>PUT /api/cards/:cardId\<close> answers \<^verbatim>\<open>success: true\<close> also when no row matched.
  \<^verbatim>\<open>DELETE /api/cards/:cardId\<close> answers \<^verbatim>\<open>success\<close> = whether a row was deleted,
  and the client throws on \<^verbatim>\<open>success: false\<close>.
\<close>

definition api_updateCard :: "env \<Rightarrow> database \<Rightarrow> string \<Rightarrow> card_updates \<Rightarrow> database option" where
  "api_updateCard e db cardId updates =
     (if env_ok e ReqUpdateCard then Some (fst (updateCard db cardId updates)) else None)"

definition api_deleteCard :: "env \<Rightarrow> database \<Rightarrow> string \<Rightarrow> database option" where
  "api_deleteCard e db cardId =
     (if env_ok e ReqDeleteCard \<and> snd (deleteCard db cardId)
      then Some (fst (deleteCard db cardId)) else None)"

definition api_createCardAction :: "env \<Rightarrow> database \<Rightarrow> card_action \<Rightarrow> database option" where
  "api_createCardAction e db a =
     (if env_ok e ReqCreateAction then Some (createCardAction db a) else None)"

definition api_getCardActions :: "env \<Rightarrow> database \<Rightarrow> string \<Rightarrow> card_action list option" where
  "api_getCardActions e db cardId =
     (if env_ok e (ReqGetActions cardId) then Some (getCardActions db cardId) else None)"


section \<open>The action ledger (src/hooks/useCardActions.ts)\<close>

text \<open>
  \<^verbatim>\<open>createAction\<close> returns \<^verbatim>\<open>null\<close> when \<^verbatim>\<open>getCurrentUser()\<close> finds no
  authenticated user. The identifier is
  \<^verbatim>\<open>`action_${timestamp}_${random1}_${random2}`\<close>; \<open>k\<close> counts the calls of
  \<^verbatim>\<open>Math.random\<close> made before in the same operation.
\<close>

definition createAction ::
  "env \<Rightarrow> nat \<Rightarrow> string \<Rightarrow> action_kind \<Rightarrow> action_details option \<Rightarrow> card_action option" where
  "createAction e k cardId kind details =
     (case env_currentUser e of
        None \<Rightarrow> None
      | Some (userId, username) \<Rightarrow>
          Some \<lparr> ca_id = ''action_'' @ string_of_nat (env_now e) @ ''_'' @ env_random e k
                          @ ''_'' @ env_random e (Suc k),
                 ca_cardId = cardId,
                 ca_userId = userId,
                 ca_username = username,
                 ca_action = kind,
                 ca_details = details,
                 ca_timestamp = int (env_now e) \<rparr>)"

definition logCardCreated :: "env \<Rightarrow> nat \<Rightarrow> string \<Rightarrow> card_action option" where
  "logCardCreated e k cardId = createAction e k cardId Created None"

definition logCardMoved :: "env \<Rightarrow> nat \<Rightarrow> string \<Rightarrow> string \<Rightarrow> string \<Rightarrow> card_action option" where
  "logCardMoved e k cardId fromList toList =
     createAction e k cardId Moved
       (Some \<lparr> ad_from = Some fromList, ad_to = Some toList, ad_field = None,
                ad_oldValue = None, ad_newValue = None, ad_memberName = None \<rparr>)"


section \<open>The synchronization engine (useDatabaseBoardState in src/hooks/useStaffUsers.ts)\<close>

text \<open>
  One browser tab running the hook, together with what it acts on. \<open>st_lists\<close>,
  \<open>st_lastUpdate\<close> and \<open>st_error\<close> are the hook's React state (the in-memory
  snapshot, the last-applied timestamp, the error). \<open>st_localStorage\<close> is the entry
  \<^verbatim>\<open>trello_board_state\<close> of \<^verbatim>\<open>localStorage\<close>, the fallback cache: \<open>Some ls\<close> when
  it holds \<^verbatim>\<open>JSON.stringify(ls)\<close>. \<open>st_db\<close> is the durable store behind the API.
  \<open>st_events\<close> lists the \<^verbatim>\<open>board-updated\<close> events dispatched so far, each with its
  \<^verbatim>\<open>detail.lists\<close> and \<^verbatim>\<open>detail.timestamp\<close>. \<open>st_created\<close> lists the records
  that \<^verbatim>\<open>createAction\<close> has returned to the hook so far.

  An operation of the hook is an \<^verbatim>\<open>async\<close> function. It is modelled as running
  without interleaving: it reads the snapshot of the render it was created in, and
  the last \<^verbatim>\<open>setLists\<close> it performs is the snapshot it leaves. Its promise either
  resolves with a value or rejects.
\<close>

record board_state =
  st_lists :: "kanban_list list"
  st_lastUpdate :: int
  st_error :: "string option"
  st_localStorage :: "kanban_list list option"
  st_db :: database
  st_events :: "(kanban_list list \<times> int) list"
  st_created :: "card_action list"

datatype 'a completion = Resolved 'a | Rejected string

text \<open>
  \<^verbatim>\<open>loadCardActions\<close>: every card gets the actions the store returns for it or, when
  the store returns none or the request fails, the actions it already carries.
\<close>

definition loadCardActions :: "env \<Rightarrow> database \<Rightarrow> kanban_list list \<Rightarrow> kanban_list list" where
  "loadCardActions e db lsts =
     map (\<lambda>list. list\<lparr> kl_cards :=
        map (\<lambda>c.
          (case api_getCardActions e db (kc_id c) of
             Some actions \<Rightarrow>
               c\<lparr> kc_actions := Some (if actions \<noteq> [] then actions
                                       else (case kc_actions c of None \<Rightarrow> [] | Some a \<Rightarrow> a)) \<rparr>
           | None \<Rightarrow>
               c\<lparr> kc_actions := Some (case kc_actions c of None \<Rightarrow> [] | Some a \<Rightarrow> a) \<rparr>))
          (kl_cards list) \<rparr>) lsts"

text \<open>
  \<^verbatim>\<open>updateLists(newLists)\<close>: save the whole board; on success set the snapshot and
  dispatch \<^verbatim>\<open>board-updated\<close>; on failure write the fallback cache and set the
  snapshot.
\<close>

definition updateLists :: "env \<Rightarrow> board_state \<Rightarrow> kanban_list list \<Rightarrow> board_state" where
  "updateLists e st newLists =
     (case api_saveKanbanData e (st_db st) newLists of
        Some db' \<Rightarrow>
          st\<lparr> st_db := db',
              st_lists := newLists,
              st_lastUpdate := int (env_now e),
              st_events := st_events st @ [(newLists, int (env_now e))] \<rparr>
      | None \<Rightarrow>
          st\<lparr> st_localStorage := Some newLists,
              st_lists := newLists,
              st_lastUpdate := int (env_now e) \<rparr>)"

text \<open>
  The card of the snapshot with the new action appended, in the list \<open>newListId\<close>
  (the \<^verbatim>\<open>updatedLists\<close> of the \<^verbatim>\<open>try\<close> block of \<^verbatim>\<open>updateCardPosition\<close>).
\<close>

definition attachMoveAction ::
  "kanban_list list \<Rightarrow> string \<Rightarrow> string \<Rightarrow> card_action option \<Rightarrow> kanban_list list" where
  "attachMoveAction lsts newListId cardId moveAction =
     map (\<lambda>list.
       if kl_id list = newListId
       then list\<lparr> kl_cards :=
              map (\<lambda>c. if kc_id c = cardId
                        then c\<lparr> kc_actions :=
                               Some ((case kc_actions c of None \<Rightarrow> [] | Some a \<Rightarrow> a)
                                     @ (case moveAction of None \<Rightarrow> [] | Some a \<Rightarrow> [a])) \<rparr>
                        else c) (kl_cards list) \<rparr>
       else list) lsts"

text \<open>
  \<^verbatim>\<open>updateCardPosition(cardId, newListId, newPosition)\<close>. The store is asked to set
  \<^verbatim>\<open>list_id\<close> and \<^verbatim>\<open>position\<close> of this one card. When the card's list in the
  snapshot and the list \<open>newListId\<close> are both found and differ, a move is logged,
  sent to the ledger (a failure of that request is swallowed) and attached to the
  card. Then the board is pulled again.

  \<^verbatim>\<open>oldList\<close> and \<^verbatim>\<open>newList\<close> are declared with \<^verbatim>\<open>const\<close> inside the
  \<^verbatim>\<open>try\<close> block, so they are not in scope in the \<^verbatim>\<open>catch\<close> block: its first
  statement after \<^verbatim>\<open>console.error\<close>, \<^verbatim>\<open>if (oldList && ...)\<close>, throws a
  \<^verbatim>\<open>ReferenceError\<close>, and the promise rejects with the state as the \<^verbatim>\<open>try\<close>
  block left it.
\<close>

definition updateCardPosition ::
  "env \<Rightarrow> board_state \<Rightarrow> string \<Rightarrow> string \<Rightarrow> int \<Rightarrow> board_state \<times> unit completion" where
  "updateCardPosition e st cardId newListId newPosition =
     (let oldList = find (\<lambda>list. list_ex (\<lambda>c. kc_id c = cardId) (kl_cards list)) (st_lists st);
          newList = find (\<lambda>list. kl_id list = newListId) (st_lists st)
      in case api_updateCard e (st_db st) cardId
                \<lparr> cu_title = None, cu_description = None, cu_position = Some newPosition,
                  cu_due_date = None, cu_labels = None, cu_attachments = None,
                  cu_members = None, cu_list_id = Some newListId \<rparr> of
           None \<Rightarrow> (st, Rejected ''ReferenceError: oldList is not defined'')
         | Some db1 \<Rightarrow>
             (let st1 = st\<lparr> st_db := db1 \<rparr>;
                  st2 =
                    (case (oldList, newList) of
                       (Some ol, Some nl) \<Rightarrow>
                         if kl_id ol \<noteq> newListId
                         then (let moveAction = logCardMoved e 0 cardId (kl_title ol) (kl_title nl)
                               in st1\<lparr> st_created := st_created st1
                                          @ (case moveAction of None \<Rightarrow> [] | Some a \<Rightarrow> [a]),
                                        st_db := (case moveAction of
                                            None \<Rightarrow> db1
                                          | Some a \<Rightarrow>
                                              (case api_createCardAction e db1 a of
                                                 None \<Rightarrow> db1 | Some db2 \<Rightarrow> db2)),
                                        st_lists := attachMoveAction (st_lists st) newListId
                                                      cardId moveAction \<rparr>)
                         else st1
                     | _ \<Rightarrow> st1)
              in case api_getListsByBoard e (st_db st2) of
                   None \<Rightarrow> (st2, Rejected ''ReferenceError: oldList is not defined'')
                 | Some finalLists \<Rightarrow>
                     (st2\<lparr> st_lists := loadCardActions e (st_db st2) finalLists,
                           st_lastUpdate := int (env_now e) \<rparr>,
                      Resolved ())))"

text \<open>
  The fields of a new card as the caller of \<^verbatim>\<open>addCard\<close> gives them
  (\<^verbatim>\<open>Omit<KanbanCardData, 'id'>\<close>; an \<^verbatim>\<open>actions\<close> field would be overwritten).
\<close>

record card_data =
  cd_title :: string
  cd_description :: "string option"
  cd_labels :: "jsval option"
  cd_dueDate :: "int option"
  cd_attachments :: "jsval option"
  cd_members :: "jsval option"

text \<open>
  \<^verbatim>\<open>addCard(listId, cardData)\<close>. The identifier is generated first. The store is
  asked to create the card at position \<^verbatim>\<open>list.cards.length\<close> of the snapshot; only
  after that does the card enter the snapshot. When the request fails the
  \<^verbatim>\<open>catch\<close> block sets the error and returns \<^verbatim>\<open>null\<close>. When no user is
  authenticated the function returns early (\<^verbatim>\<open>undefined\<close>), after the store has
  the card. The result is \<open>Some (Some id)\<close> for the id, \<open>Some None\<close> for
  \<^verbatim>\<open>null\<close>, \<open>None\<close> for \<^verbatim>\<open>undefined\<close>.
\<close>

definition addCard ::
  "env \<Rightarrow> board_state \<Rightarrow> string \<Rightarrow> card_data \<Rightarrow> board_state \<times> string option option" where
  "addCard e st listId cardData =
     (let cardId = generateCardId e;
          list = find (\<lambda>l. kl_id l = listId) (st_lists st);
          position = (case list of None \<Rightarrow> 0 | Some l \<Rightarrow> int (length (kl_cards l)))
      in case api_createCard e (st_db st)
                \<lparr> cr_id = cardId,
                  cr_list_id = listId,
                  cr_title = cd_title cardData,
                  cr_description = cd_description cardData,
                  cr_position = position,
                  cr_due_date = map_option (\<lambda>ms. ms div 1000) (cd_dueDate cardData),
                  cr_labels = cd_labels cardData,
                  cr_attachments = cd_attachments cardData,
                  cr_members = cd_members cardData \<rparr> of
           None \<Rightarrow> (st\<lparr> st_error := Some (env_message e) \<rparr>, Some None)
         | Some db1 \<Rightarrow>
             (case logCardCreated e 1 cardId of
                None \<Rightarrow> (st\<lparr> st_db := db1 \<rparr>, None)
              | Some created \<Rightarrow>
                  (let db2 = (case api_createCardAction e db1 created of
                                None \<Rightarrow> db1 | Some d \<Rightarrow> d);
                       newCard = \<lparr> kc_id = cardId,
                                   kc_title = cd_title cardData,
                                   kc_description = cd_description cardData,
                                   kc_labels = cd_labels cardData,
                                   kc_dueDate = cd_dueDate cardData,
                                   kc_attachments = cd_attachments cardData,
                                   kc_members = cd_members cardData,
                                   kc_actions = Some [created] \<rparr>;
                       updatedLists = map (\<lambda>l. if kl_id l = listId
                                                 then l\<lparr> kl_cards := kl_cards l @ [newCard] \<rparr>
                                                 else l) (st_lists st);
                       st2 = st\<lparr> st_db := db2,
                                 st_created := st_created st @ [created],
                                 st_lists := updatedLists \<rparr>
                   in case api_getListsByBoard e db2 of
                        None \<Rightarrow> (st2\<lparr> st_error := Some (env_message e) \<rparr>, Some None)
                      | Some finalLists \<Rightarrow>
                          (st2\<lparr> st_lists := loadCardActions e db2 finalLists,
                                st_lastUpdate := int (env_now e) \<rparr>,
                           Some (Some cardId)))))"

text \<open>
  The listener of \<^verbatim>\<open>board-updated\<close>: the snapshot of the event replaces the local
  one when the event's timestamp is greater than \<^verbatim>\<open>lastUpdate\<close>.
\<close>

definition handleBoardUpdate :: "board_state \<Rightarrow> kanban_list list \<times> int \<Rightarrow> board_state" where
  "handleBoardUpdate st event =
     (case event of (updatedLists, timestamp) \<Rightarrow>
        if timestamp > st_lastUpdate st
        then st\<lparr> st_lists := updatedLists, st_lastUpdate := timestamp \<rparr>
        else st)"

text \<open>
  One run of the periodic sync (every 5 seconds): pull the board with its actions
  and, when it differs from the snapshot, replace the snapshot. A failed pull is
  ignored. The source compares \<^verbatim>\<open>JSON.stringify\<close> of both sides; the snapshot is
  modelled by its JSON content, so that comparison is equality (two snapshots whose
  objects list the same fields in another order are the same here).
\<close>

definition periodicSync :: "env \<Rightarrow> board_state \<Rightarrow> board_state" where
  "periodicSync e st =
     (case api_getListsByBoard e (st_db st) of
        None \<Rightarrow> st
      | Some latestLists \<Rightarrow>
          (let latestListsWithActions = loadCardActions e (st_db st) latestLists
           in if latestListsWithActions \<noteq> st_lists st
              then st\<lparr> st_lists := latestListsWithActions, st_lastUpdate := int (env_now e) \<rparr>
              else st))"


section \<open>KanbanBoard (src/components/KanbanBoard.tsx)\<close>

text \<open>
  \<^verbatim>\<open>visibleLists\<close>: the columns rendered for a viewer.
\<close>

definition visibleLists :: "bool \<Rightarrow> user_role \<Rightarrow> kanban_list list \<Rightarrow> kanban_list list" where
  "visibleLists isPublicView userRole lsts =
     filter (\<lambda>list.
       if isPublicView then kl_type list = Open
       else (case userRole of
               Admin \<Rightarrow> True
             | Mod \<Rightarrow> True
             | Default \<Rightarrow> kl_type list = Open)) lsts"


text \<open>
  JavaScript helpers used by the drag handlers. \<open>startsWith\<close> is
  \<^verbatim>\<open>String.prototype.startsWith\<close>; \<open>replace_first\<close> is \<^verbatim>\<open>s.replace(pat, rep)\<close>
  with a string pattern, which replaces the first occurrence only; \<open>findIndex\<close> is
  \<^verbatim>\<open>Array.prototype.findIndex\<close>, \<open>-1\<close> when nothing matches.
  \<open>splice_start\<close> is the index at which \<^verbatim>\<open>splice(start, ...)\<close> works on an array
  of the given length (a negative start counts from the end, and the result is
  clamped to the array).
\<close>

definition startsWith :: "string \<Rightarrow> string \<Rightarrow> bool" where
  "startsWith s pat = (take (length pat) s = pat)"

fun replace_first :: "string \<Rightarrow> string \<Rightarrow> string \<Rightarrow> string" where
  "replace_first pat rep [] = (if pat = [] then rep else [])"
| "replace_first pat rep (c # cs) =
     (if take (length pat) (c # cs) = pat then rep @ drop (length pat) (c # cs)
      else c # replace_first pat rep cs)"

fun findIndex :: "('a \<Rightarrow> bool) \<Rightarrow> 'a list \<Rightarrow> int" where
  "findIndex P [] = - 1"
| "findIndex P (x # xs) =
     (if P x then 0 else (if findIndex P xs < 0 then - 1 else findIndex P xs + 1))"

definition splice_start :: "nat \<Rightarrow> int \<Rightarrow> nat" where
  "splice_start len start =
     (if start < 0 then nat (max (int len + start) 0) else min (nat start) len)"

definition splice_insert :: "int \<Rightarrow> 'a \<Rightarrow> 'a list \<Rightarrow> 'a list" where
  "splice_insert start x xs =
     take (splice_start (length xs) start) xs @ [x] @ drop (splice_start (length xs) start) xs"

text \<open>
  \<^verbatim>\<open>arrayMove\<close> belongs to the package \<^verbatim>\<open>@dnd-kit/sortable\<close>, outside the
  repository; this follows its published source,
  \<^verbatim>\<open>newArray.splice(to < 0 ? newArray.length + to : to, 0, newArray.splice(from, 1)[0])\<close>
  on a copy of the array. Both call sites pass a non-empty array, so the inner
  \<^verbatim>\<open>splice\<close> always removes an element; the array is returned as it is otherwise.
\<close>

definition arrayMove :: "'a list \<Rightarrow> int \<Rightarrow> int \<Rightarrow> 'a list" where
  "arrayMove xs from to =
     (let k = splice_start (length xs) from
      in if k < length xs
         then splice_insert (if to < 0 then int (length xs) + to else to) (xs ! k)
                (take k xs @ drop (Suc k) xs)
         else xs)"

text \<open>
  The properties of the board that the drag handlers read: the lists, the viewer's
  role, and whether the callbacks \<^verbatim>\<open>onListsUpdate\<close> and
  \<^verbatim>\<open>onCardPositionUpdate\<close> were passed. A handler's effect on the rest of the
  application is the one callback it invokes, if any.
\<close>

record board_props =
  bp_lists :: "kanban_list list"
  bp_userRole :: user_role
  bp_onListsUpdate :: bool
  bp_onCardPositionUpdate :: bool

datatype drag_effect =
  NoEffect
  | ListsUpdate "kanban_list list"
  | CardPositionUpdate string string int

definition onListsUpdate :: "board_props \<Rightarrow> kanban_list list \<Rightarrow> drag_effect" where
  "onListsUpdate props newLists = (if bp_onListsUpdate props then ListsUpdate newLists else NoEffect)"

text \<open>
  The list holding the dragged card, and the list a drag is over: the first list
  whose id is the \<^verbatim>\<open>over\<close> id, with or without the prefix \<^verbatim>\<open>list-\<close>, or that
  holds the card with that id.
\<close>

definition findActiveList :: "kanban_list list \<Rightarrow> string \<Rightarrow> kanban_list option" where
  "findActiveList lsts activeId =
     find (\<lambda>list. list_ex (\<lambda>c. kc_id c = activeId) (kl_cards list)) lsts"

definition findOverList :: "kanban_list list \<Rightarrow> string \<Rightarrow> kanban_list option" where
  "findOverList lsts overId =
     find (\<lambda>list. kl_id list = overId
                 \<or> kl_id list = replace_first ''list-'' [] overId
                 \<or> list_ex (\<lambda>c. kc_id c = overId) (kl_cards list)) lsts"

text \<open>
  The lists after moving \<open>activeCard\<close> out of \<open>activeList\<close> and into
  \<open>overList\<close>, before the card with id \<open>overId\<close> or at the end
  (\<^verbatim>\<open>list.cards.indexOf(overCard)\<close> is the index of the first card with that id).
  \<^verbatim>\<open>handleDragEnd\<close> looks \<^verbatim>\<open>overCard\<close> up in \<^verbatim>\<open>overList\<close>, which is the
  mapped list itself when list ids are unique.
\<close>

definition moveBetweenLists ::
  "kanban_list list \<Rightarrow> kanban_list \<Rightarrow> kanban_list \<Rightarrow> string \<Rightarrow> string \<Rightarrow> kanban_card option
     \<Rightarrow> kanban_list list" where
  "moveBetweenLists lsts activeList overList activeId overId activeCard =
     map (\<lambda>list.
       if kl_id list = kl_id activeList
       then list\<lparr> kl_cards := filter (\<lambda>c. kc_id c \<noteq> activeId) (kl_cards list) \<rparr>
       else if kl_id list = kl_id overList
       then (case activeCard of
               None \<Rightarrow> list
             | Some ac \<Rightarrow>
                 (case find (\<lambda>c. kc_id c = overId) (kl_cards list) of
                    Some overCard \<Rightarrow>
                      list\<lparr> kl_cards :=
                        splice_insert (findIndex (\<lambda>c. kc_id c = overId) (kl_cards list)) ac
                          (kl_cards list) \<rparr>
                  | None \<Rightarrow> list\<lparr> kl_cards := kl_cards list @ [ac] \<rparr>))
       else list) lsts"

text \<open>
  \<^verbatim>\<open>handleDragOver\<close>. \<open>over\<close> is \<open>None\<close> when the drag is over nothing.
\<close>

definition handleDragOver :: "board_props \<Rightarrow> string \<Rightarrow> string option \<Rightarrow> drag_effect" where
  "handleDragOver props activeId over =
     (case over of
        None \<Rightarrow> NoEffect
      | Some overId \<Rightarrow>
          if activeId = overId then NoEffect
          else if bp_userRole props \<noteq> Admin \<and> bp_userRole props \<noteq> Mod then NoEffect
          else (case find (\<lambda>c. kc_id c = activeId) (concat (map kl_cards (bp_lists props))) of
                  None \<Rightarrow> NoEffect
                | Some activeCard \<Rightarrow>
                    (case (findActiveList (bp_lists props) activeId,
                           findOverList (bp_lists props) overId) of
                       (Some activeList, Some overList) \<Rightarrow>
                         if bp_userRole props = Mod \<and> kl_type overList = Open then NoEffect
                         else if kl_id activeList \<noteq> kl_id overList
                         then onListsUpdate props
                                (moveBetweenLists (bp_lists props) activeList overList
                                   activeId overId (Some activeCard))
                         else NoEffect
                     | _ \<Rightarrow> NoEffect)))"

text \<open>
  \<^verbatim>\<open>handleDragEnd\<close>. A drag whose active and over ids both start with
  \<^verbatim>\<open>list-\<close> reorders the lists. Any other drag is a card drag: the role must be
  \<^verbatim>\<open>admin\<close> or \<^verbatim>\<open>mod\<close>, both lists must be found, and a \<^verbatim>\<open>mod\<close> is turned away
  when the list dropped on is \<^verbatim>\<open>open\<close>; that test comes before the test whether
  the drop is on the card's own list.
\<close>

definition handleDragEnd :: "board_props \<Rightarrow> string \<Rightarrow> string option \<Rightarrow> drag_effect" where
  "handleDragEnd props activeId over =
     (case over of
        None \<Rightarrow> NoEffect
      | Some overId \<Rightarrow>
          if startsWith activeId ''list-'' \<and> startsWith overId ''list-''
          then (if bp_userRole props \<noteq> Admin \<and> bp_userRole props \<noteq> Mod then NoEffect
                else (let activeListId = replace_first ''list-'' [] activeId;
                          overListId = replace_first ''list-'' [] overId
                      in if activeListId \<noteq> overListId
                         then (let activeIndex = findIndex (\<lambda>list. kl_id list = activeListId) (bp_lists props);
                                   overIndex = findIndex (\<lambda>list. kl_id list = overListId) (bp_lists props)
                               in if activeIndex \<noteq> overIndex
                                  then onListsUpdate props (arrayMove (bp_lists props) activeIndex overIndex)
                                  else NoEffect)
                         else NoEffect))
          else if bp_userRole props \<noteq> Admin \<and> bp_userRole props \<noteq> Mod then NoEffect
          else (case (findActiveList (bp_lists props) activeId,
                      findOverList (bp_lists props) overId) of
                  (Some activeList, Some overList) \<Rightarrow>
                    if bp_userRole props = Mod \<and> kl_type overList = Open then NoEffect
                    else if kl_id activeList = kl_id overList
                    then (let activeIndex = findIndex (\<lambda>c. kc_id c = activeId) (kl_cards activeList);
                              overIndex = findIndex (\<lambda>c. kc_id c = overId) (kl_cards activeList)
                          in if activeIndex \<noteq> overIndex
                             then (if bp_onCardPositionUpdate props
                                   then CardPositionUpdate activeId (kl_id overList) overIndex
                                   else onListsUpdate props
                                          (map (\<lambda>list. if kl_id list = kl_id activeList
                                                        then list\<lparr> kl_cards :=
                                                               arrayMove (kl_cards activeList) activeIndex overIndex \<rparr>
                                                        else list) (bp_lists props)))
                             else NoEffect)
                    else if bp_userRole props = Mod \<and> kl_type overList = Open then NoEffect
                    else (let newPosition =
                                (case find (\<lambda>c. kc_id c = overId) (kl_cards overList) of
                                   Some overCard \<Rightarrow> findIndex (\<lambda>c. kc_id c = overId) (kl_cards overList)
                                 | None \<Rightarrow> int (length (kl_cards overList)))
                          in if bp_onCardPositionUpdate props
                             then CardPositionUpdate activeId (kl_id overList) newPosition
                             else onListsUpdate props
                                    (moveBetweenLists (bp_lists props) activeList overList activeId overId
                                       (find (\<lambda>c. kc_id c = activeId) (kl_cards activeList))))
                | _ \<Rightarrow> NoEffect))"


section \<open>The page (src/pages/Index.tsx)\<close>

text \<open>
  The page passes the whole snapshot as \<^verbatim>\<open>lists\<close>, \<^verbatim>\<open>handleLocalUpdate\<close> (which
  calls \<^verbatim>\<open>updateLists\<close>) as \<^verbatim>\<open>onListsUpdate\<close> and \<^verbatim>\<open>updateCardPosition\<close> as
  \<^verbatim>\<open>onCardPositionUpdate\<close>. \<open>boardDragEnd\<close> and \<open>boardDragOver\<close> are a drag
  event on the board of a viewer with the given role, from the handler to the state
  it leaves.
\<close>

definition boardProps :: "board_state \<Rightarrow> user_role \<Rightarrow> board_props" where
  "boardProps st role =
     \<lparr> bp_lists = st_lists st, bp_userRole = role,
       bp_onListsUpdate = True, bp_onCardPositionUpdate = True \<rparr>"

definition applyEffect :: "env \<Rightarrow> board_state \<Rightarrow> drag_effect \<Rightarrow> board_state" where
  "applyEffect e st eff =
     (case eff of
        NoEffect \<Rightarrow> st
      | ListsUpdate newLists \<Rightarrow> updateLists e st newLists
      | CardPositionUpdate cardId newListId newPosition \<Rightarrow>
          fst (updateCardPosition e st cardId newListId newPosition))"

definition boardDragEnd :: "env \<Rightarrow> board_state \<Rightarrow> user_role \<Rightarrow> string \<Rightarrow> string option \<Rightarrow> board_state" where
  "boardDragEnd e st role activeId over =
     applyEffect e st (handleDragEnd (boardProps st role) activeId over)"

definition boardDragOver :: "env \<Rightarrow> board_state \<Rightarrow> user_role \<Rightarrow> string \<Rightarrow> string option \<Rightarrow> board_state" where
  "boardDragOver e st role activeId over =
     applyEffect e st (handleDragOver (boardProps st role) activeId over)"


section \<open>The board a store holds\<close>

text \<open>
  What the store holds for the session's board, read off the tables and not through
  the code of the pull: the lists of the board in the order of their positions,
  each with the cards whose \<^verbatim>\<open>list_id\<close> names it in the order of their positions,
  and every card with the ledger rows that name it, newest first. A
  \<^verbatim>\<open>NULL\<close> or empty description, a \<^verbatim>\<open>NULL\<close> or zero due date and a
  \<^verbatim>\<open>NULL\<close> or zero card limit are absent; the due date is in milliseconds; a JSON
  column is decoded (\<^verbatim>\<open>NULL\<close> as the empty array, labels that decode to a string
  once more). \<open>answered\<close> says for which cards the ledger is read; a card for which
  it is not read has no actions.
\<close>

definition storedCard :: "(string \<Rightarrow> bool) \<Rightarrow> database \<Rightarrow> card_row \<Rightarrow> kanban_card" where
  "storedCard answered db r =
     \<lparr> kc_id = cr_id r,
       kc_title = cr_title r,
       kc_description = (if cr_description r = Some [] then None else cr_description r),
       kc_labels = Some (case cr_labels r of
                           None \<Rightarrow> Arr [] | Some (Arr xs) \<Rightarrow> Arr xs | Some (Text v) \<Rightarrow> v),
       kc_dueDate = (if cr_due_date r = Some 0 then None
                     else map_option (\<lambda>seconds. seconds * 1000) (cr_due_date r)),
       kc_attachments = Some (case cr_attachments r of None \<Rightarrow> Arr [] | Some v \<Rightarrow> v),
       kc_members = Some (case cr_members r of None \<Rightarrow> Arr [] | Some v \<Rightarrow> v),
       kc_actions = Some (if answered (cr_id r)
                          then filter (\<lambda>a. ca_cardId a = cr_id r)
                                 (sort_key (\<lambda>a. - ca_timestamp a) (db_card_actions db))
                          else []) \<rparr>"

definition storedBoard :: "(string \<Rightarrow> bool) \<Rightarrow> database \<Rightarrow> kanban_list list" where
  "storedBoard answered db =
     map (\<lambda>l. \<lparr> kl_id = lr_id l,
                kl_title = lr_title l,
                kl_type = lr_type l,
                kl_cards = map (storedCard answered db)
                             (filter (\<lambda>r. cr_list_id r = lr_id l)
                                (sort_key cr_position (db_cards db))),
                kl_cardLimit = (if lr_card_limit l = Some 0 then None else lr_card_limit l) \<rparr>)
       (filter (\<lambda>l. lr_board_id l = ''default'') (sort_key lr_position (db_lists db)))"


section \<open>A small board\<close>

text \<open>
  A store with an open list \<^verbatim>\<open>todo\<close> holding the cards \<^verbatim>\<open>c1\<close>, \<^verbatim>\<open>c2\<close>,
  \<^verbatim>\<open>c3\<close> at positions 0, 1, 2 and an empty restricted list \<^verbatim>\<open>staff\<close>; a tab
  whose snapshot is what the store returns; the same with the list \<^verbatim>\<open>todo\<close>
  restricted; an environment in which every request
  succeeds and a user is authenticated, one in which no user is authenticated, and
  one in which the store is unreachable.
\<close>

definition ex_card :: "string \<Rightarrow> int \<Rightarrow> card_row" where
  "ex_card ident pos =
     \<lparr> cr_id = ident, cr_list_id = ''todo'', cr_title = ''task'', cr_description = None,
       cr_position = pos, cr_due_date = None, cr_labels = None, cr_attachments = None,
       cr_members = None \<rparr>"

definition ex_db :: database where
  "ex_db =
     \<lparr> db_lists =
         [\<lparr> lr_id = ''todo'', lr_board_id = ''default'', lr_title = ''To Do'', lr_type = Open,
            lr_position = 0, lr_card_limit = None \<rparr>,
          \<lparr> lr_id = ''staff'', lr_board_id = ''default'', lr_title = ''Staff Planning'',
            lr_type = Closed, lr_position = 1, lr_card_limit = None \<rparr>],
       db_cards = [ex_card ''c1'' 0, ex_card ''c2'' 1, ex_card ''c3'' 2],
       db_card_actions = [] \<rparr>"

definition ex_snapshot_card :: "string \<Rightarrow> kanban_card" where
  "ex_snapshot_card ident =
     \<lparr> kc_id = ident, kc_title = ''task'', kc_description = None, kc_labels = Some (Arr []),
       kc_dueDate = None, kc_attachments = Some (Arr []), kc_members = Some (Arr []),
       kc_actions = Some [] \<rparr>"

definition ex_lists :: "kanban_list list" where
  "ex_lists =
     [\<lparr> kl_id = ''todo'', kl_title = ''To Do'', kl_type = Open,
        kl_cards = [ex_snapshot_card ''c1'', ex_snapshot_card ''c2'', ex_snapshot_card ''c3''],
        kl_cardLimit = None \<rparr>,
      \<lparr> kl_id = ''staff'', kl_title = ''Staff Planning'', kl_type = Closed,
        kl_cards = [], kl_cardLimit = None \<rparr>]"

definition ex_state :: board_state where
  "ex_state =
     \<lparr> st_lists = ex_lists, st_lastUpdate = 0, st_error = None, st_localStorage = None,
       st_db = ex_db, st_events = [], st_created = [] \<rparr>"

definition ex_state_private :: board_state where
  "ex_state_private =
     ex_state\<lparr> st_lists := [(hd ex_lists)\<lparr> kl_type := Closed \<rparr>, hd (tl ex_lists)],
               st_db := ex_db\<lparr> db_lists :=
                          [(hd (db_lists ex_db))\<lparr> lr_type := Closed \<rparr>, hd (tl (db_lists ex_db))] \<rparr> \<rparr>"

definition ex_env :: env where
  "ex_env =
     \<lparr> env_now = 7, env_random = (\<lambda>k. ''r''), env_currentUser = Some (''u1'', ''alice''),
       env_ok = (\<lambda>r. True), env_message = ''API request failed'' \<rparr>"

definition ex_env_anonymous :: env where
  "ex_env_anonymous = ex_env\<lparr> env_currentUser := None \<rparr>"

definition ex_env_unreachable :: env where
  "ex_env_unreachable = ex_env\<lparr> env_ok := (\<lambda>r. False) \<rparr>"

text \<open>
  The store of the small board after another session has moved \<^verbatim>\<open>c2\<close> to
  \<^verbatim>\<open>staff\<close> and logged an action on \<^verbatim>\<open>c1\<close>; an environment in which the
  lists can be pulled and the ledger cannot; the store of the small board after
  \<^verbatim>\<open>c2\<close> was deleted, and the tab after one periodic sync with that store.
\<close>

definition ex_action :: card_action where
  "ex_action =
     \<lparr> ca_id = ''a1'', ca_cardId = ''c1'', ca_userId = ''u2'', ca_username = ''bob'',
       ca_action = Edited, ca_details = None, ca_timestamp = 5 \<rparr>"

definition ex_db_changed :: database where
  "ex_db_changed =
     ex_db\<lparr> db_cards := [ex_card ''c1'' 0, (ex_card ''c2'' 0)\<lparr> cr_list_id := ''staff'' \<rparr>,
                          ex_card ''c3'' 1],
            db_card_actions := [ex_action] \<rparr>"

definition ex_env_no_ledger :: env where
  "ex_env_no_ledger = ex_env\<lparr> env_ok := (\<lambda>r. r = ReqGetLists) \<rparr>"



definition ex_updates :: card_updates where
  "ex_updates =
     \<lparr> cu_title = None, cu_description = None, cu_position = Some 5, cu_due_date = None,
       cu_labels = None, cu_attachments = None, cu_members = None, cu_list_id = None \<rparr>"

definition ex_card_data :: card_data where
  "ex_card_data =
     \<lparr> cd_title = ''new task'', cd_description = Some [], cd_labels = Some (Arr []),
       cd_dueDate = None, cd_attachments = None, cd_members = None \<rparr>"


section \<open>Properties of the store\<close>

lemma updateCard_cards:
  "db_cards (fst (updateCard db ident updates)) =
     map (\<lambda>r. if cr_id r = ident then updateCard_row updates r else r) (db_cards db)"
  by (simp add: updateCard_def)

lemma updateCard_other_tables:
  "db_lists (fst (updateCard db ident updates)) = db_lists db"
  "db_card_actions (fst (updateCard db ident updates)) = db_card_actions db"
  by (simp_all add: updateCard_def)

text \<open>
  C10. \<^verbatim>\<open>updateCard(id, updates)\<close> is a frame-preserving partial update: it
  neither adds nor removes rows, leaves every row with another id as it was, and in
  the row with the given id each of \<^verbatim>\<open>title\<close>, \<^verbatim>\<open>description\<close>, \<^verbatim>\<open>position\<close>,
  \<^verbatim>\<open>due_date\<close>, \<^verbatim>\<open>labels\<close>, \<^verbatim>\<open>attachments\<close>, \<^verbatim>\<open>members\<close> and \<^verbatim>\<open>list_id\<close>
  that is absent from \<^verbatim>\<open>updates\<close> keeps its stored value, so only fields present in
  \<^verbatim>\<open>updates\<close> change. The tables of lists and of actions are untouched.
\<close>

theorem updateCard_frame:
  assumes "i < length (db_cards db)"
  shows "length (db_cards (fst (updateCard db ident updates))) = length (db_cards db)
    \<and> cr_id (db_cards (fst (updateCard db ident updates)) ! i) = cr_id (db_cards db ! i)
    \<and> (cr_id (db_cards db ! i) \<noteq> ident \<longrightarrow>
          db_cards (fst (updateCard db ident updates)) ! i = db_cards db ! i)
    \<and> (cu_title updates = None \<longrightarrow>
          cr_title (db_cards (fst (updateCard db ident updates)) ! i) = cr_title (db_cards db ! i))
    \<and> (cu_description updates = None \<longrightarrow>
          cr_description (db_cards (fst (updateCard db ident updates)) ! i) = cr_description (db_cards db ! i))
    \<and> (cu_position updates = None \<longrightarrow>
          cr_position (db_cards (fst (updateCard db ident updates)) ! i) = cr_position (db_cards db ! i))
    \<and> (cu_due_date updates = None \<longrightarrow>
          cr_due_date (db_cards (fst (updateCard db ident updates)) ! i) = cr_due_date (db_cards db ! i))
    \<and> (cu_labels updates = None \<longrightarrow>
          cr_labels (db_cards (fst (updateCard db ident updates)) ! i) = cr_labels (db_cards db ! i))
    \<and> (cu_attachments updates = None \<longrightarrow>
          cr_attachments (db_cards (fst (updateCard db ident updates)) ! i) = cr_attachments (db_cards db ! i))
    \<and> (cu_members updates = None \<longrightarrow>
          cr_members (db_cards (fst (updateCard db ident updates)) ! i) = cr_members (db_cards db ! i))
    \<and> (cu_list_id updates = None \<longrightarrow>
          cr_list_id (db_cards (fst (updateCard db ident updates)) ! i) = cr_list_id (db_cards db ! i))
    \<and> db_lists (fst (updateCard db ident updates)) = db_lists db
    \<and> db_card_actions (fst (updateCard db ident updates)) = db_card_actions db"
  using assms
  by (simp add: updateCard_def updateCard_row_def coalesce_def coalesce_null_def)

theorem updateCard_frame_witness:
  "cr_title (db_cards (fst (updateCard ex_db ''c2'' ex_updates)) ! 1) = ''task''
   \<and> cr_list_id (db_cards (fst (updateCard ex_db ''c2'' ex_updates)) ! 1) = ''todo''
   \<and> db_cards (fst (updateCard ex_db ''c2'' ex_updates)) ! 0 = ex_card ''c1'' 0"
proof -
  have len: "1 < length (db_cards ex_db)" "0 < length (db_cards ex_db)"
    by (simp_all add: ex_db_def)
  have absent: "cu_title ex_updates = None" "cu_list_id ex_updates = None"
    by (simp_all add: ex_updates_def)
  have other: "cr_id (db_cards ex_db ! 0) \<noteq> ''c2''"
    by (simp add: ex_db_def ex_card_def)
  have "cr_title (db_cards (fst (updateCard ex_db ''c2'' ex_updates)) ! 1)
          = cr_title (db_cards ex_db ! 1)"
       "cr_list_id (db_cards (fst (updateCard ex_db ''c2'' ex_updates)) ! 1)
          = cr_list_id (db_cards ex_db ! 1)"
    using updateCard_frame[OF len(1), of "''c2''" ex_updates] absent by blast+
  moreover have "db_cards (fst (updateCard ex_db ''c2'' ex_updates)) ! 0 = db_cards ex_db ! 0"
    using updateCard_frame[OF len(2), of "''c2''" ex_updates] other by blast
  ultimately show ?thesis
    by (simp add: ex_db_def ex_card_def)
qed

section \<open>Properties of the drag handlers\<close>

lemma boardProps_simps:
  "bp_lists (boardProps st role) = st_lists st"
  "bp_userRole (boardProps st role) = role"
  "bp_onListsUpdate (boardProps st role)"
  "bp_onCardPositionUpdate (boardProps st role)"
  by (simp_all add: boardProps_def)

lemma handleDragEnd_mod_open:
  assumes "bp_userRole props = Mod"
      and "findOverList (bp_lists props) overId = Some overList"
      and "kl_type overList = Open"
      and "\<not> (startsWith activeId ''list-'' \<and> startsWith overId ''list-'')"
  shows "handleDragEnd props activeId (Some overId) = NoEffect"
  using assms by (auto simp add: handleDragEnd_def split: option.splits)

lemma handleDragOver_mod_open:
  assumes "bp_userRole props = Mod"
      and "findOverList (bp_lists props) overId = Some overList"
      and "kl_type overList = Open"
  shows "handleDragOver props activeId (Some overId) = NoEffect"
  using assms by (auto simp add: handleDragOver_def split: option.splits)

lemma handleDragEnd_same_list:
  assumes "bp_userRole props = Mod \<or> bp_userRole props = Admin"
      and "bp_onCardPositionUpdate props"
      and "\<not> (startsWith activeId ''list-'' \<and> startsWith overId ''list-'')"
      and "findActiveList (bp_lists props) activeId = Some activeList"
      and "findOverList (bp_lists props) overId = Some overList"
      and "kl_id activeList = kl_id overList"
  shows "handleDragEnd props activeId (Some overId) =
           (if bp_userRole props = Mod \<and> kl_type overList = Open then NoEffect
            else if findIndex (\<lambda>c. kc_id c = activeId) (kl_cards activeList)
                      = findIndex (\<lambda>c. kc_id c = overId) (kl_cards activeList) then NoEffect
            else CardPositionUpdate activeId (kl_id overList)
                   (findIndex (\<lambda>c. kc_id c = overId) (kl_cards activeList)))"
  using assms by (auto simp add: handleDragEnd_def Let_def split: option.splits)

lemma handleDragEnd_same_index:
  assumes "\<not> (startsWith activeId ''list-'' \<and> startsWith overId ''list-'')"
      and "findActiveList (bp_lists props) activeId = Some activeList"
      and "findOverList (bp_lists props) overId = Some overList"
      and "kl_id activeList = kl_id overList"
      and "findIndex (\<lambda>c. kc_id c = activeId) (kl_cards activeList)
             = findIndex (\<lambda>c. kc_id c = overId) (kl_cards activeList)"
  shows "handleDragEnd props activeId (Some overId) = NoEffect"
  using assms by (auto simp add: handleDragEnd_def Let_def split: option.splits)

lemma ex_findActiveList:
  "findActiveList ex_lists ''c1'' = Some (hd ex_lists)"
  "findActiveList ex_lists ''c2'' = Some (hd ex_lists)"
  "findActiveList ex_lists ''c3'' = Some (hd ex_lists)"
  by (simp_all add: findActiveList_def ex_lists_def ex_snapshot_card_def)

lemma ex_findOverList:
  "findOverList ex_lists ''c1'' = Some (hd ex_lists)"
  "findOverList ex_lists ''c2'' = Some (hd ex_lists)"
  "findOverList ex_lists ''staff'' = Some (hd (tl ex_lists))"
  by (simp_all add: findOverList_def ex_lists_def ex_snapshot_card_def)

lemma ex_not_list_drag:
  "\<not> (startsWith ''c1'' ''list-'' \<and> startsWith x ''list-'')"
  "\<not> (startsWith ''c2'' ''list-'' \<and> startsWith x ''list-'')"
  "\<not> (startsWith ''c3'' ''list-'' \<and> startsWith x ''list-'')"
  by (simp_all add: startsWith_def)

text \<open>
  C3. When a viewer with role \<^verbatim>\<open>mod\<close> drags a card (a drag that the handler does
  not take for a drag of lists) and the list dropped on is \<^verbatim>\<open>open\<close>, neither
  \<^verbatim>\<open>handleDragEnd\<close> nor \<^verbatim>\<open>handleDragOver\<close> invokes a callback, whatever list the
  card comes from: the snapshot, the durable store and everything else in the state
  stay as they were.
\<close>

theorem mod_drop_on_open_denied:
  assumes "findOverList (st_lists st) overId = Some overList"
      and "kl_type overList = Open"
      and "\<not> (startsWith activeId ''list-'' \<and> startsWith overId ''list-'')"
  shows "handleDragEnd (boardProps st Mod) activeId (Some overId) = NoEffect
       \<and> handleDragOver (boardProps st Mod) activeId (Some overId) = NoEffect
       \<and> boardDragEnd e st Mod activeId (Some overId) = st
       \<and> boardDragOver e st Mod activeId (Some overId) = st"
proof -
  have 1: "handleDragEnd (boardProps st Mod) activeId (Some overId) = NoEffect"
    using assms by (intro handleDragEnd_mod_open[where overList = overList])
                   (simp_all add: boardProps_simps)
  have 2: "handleDragOver (boardProps st Mod) activeId (Some overId) = NoEffect"
    using assms by (intro handleDragOver_mod_open[where overList = overList])
                   (simp_all add: boardProps_simps)
  show ?thesis
    using 1 2 by (simp add: boardDragEnd_def boardDragOver_def applyEffect_def)
qed

theorem mod_drop_on_open_denied_witness:
  "handleDragEnd (boardProps ex_state Mod) ''c1'' (Some ''c2'') = NoEffect
   \<and> handleDragOver (boardProps ex_state Mod) ''c1'' (Some ''c2'') = NoEffect
   \<and> boardDragEnd ex_env ex_state Mod ''c1'' (Some ''c2'') = ex_state
   \<and> boardDragOver ex_env ex_state Mod ''c1'' (Some ''c2'') = ex_state"
proof -
  have 1: "findOverList (st_lists ex_state) ''c2'' = Some (hd ex_lists)"
    by (simp add: ex_state_def ex_findOverList)
  have 2: "kl_type (hd ex_lists) = Open"
    by (simp add: ex_lists_def)
  show ?thesis
    by (rule mod_drop_on_open_denied[OF 1 2 ex_not_list_drag(1)])
qed

text \<open>
  C5, as the code has it. For a viewer with role \<^verbatim>\<open>mod\<close>, a drag of a card that
  ends on the card's own list, at another index, is passed to
  \<^verbatim>\<open>updateCardPosition\<close> with the index dropped on when the list is not \<^verbatim>\<open>open\<close>;
  when the list is \<^verbatim>\<open>open\<close> nothing is invoked and the state stays as it was.
\<close>

theorem mod_reorder_within_column:
  assumes "\<not> (startsWith activeId ''list-'' \<and> startsWith overId ''list-'')"
      and "findActiveList (st_lists st) activeId = Some activeList"
      and "findOverList (st_lists st) overId = Some overList"
      and "kl_id activeList = kl_id overList"
      and "findIndex (\<lambda>c. kc_id c = activeId) (kl_cards activeList)
             \<noteq> findIndex (\<lambda>c. kc_id c = overId) (kl_cards activeList)"
  shows "boardDragEnd e st Mod activeId (Some overId) =
           (if kl_type overList = Open then st
            else fst (updateCardPosition e st activeId (kl_id overList)
                        (findIndex (\<lambda>c. kc_id c = overId) (kl_cards activeList))))"
proof -
  have "handleDragEnd (boardProps st Mod) activeId (Some overId) =
           (if kl_type overList = Open then NoEffect
            else CardPositionUpdate activeId (kl_id overList)
                   (findIndex (\<lambda>c. kc_id c = overId) (kl_cards activeList)))"
    using assms
          handleDragEnd_same_list[of "boardProps st Mod" activeId overId activeList overList]
    by (simp add: boardProps_simps)
  then show ?thesis
    by (simp add: boardDragEnd_def applyEffect_def)
qed

theorem mod_reorder_within_column_counterexample:
  "findActiveList (st_lists ex_state) ''c3'' = Some (hd ex_lists)
   \<and> findOverList (st_lists ex_state) ''c1'' = Some (hd ex_lists)
   \<and> kl_type (hd ex_lists) = Open
   \<and> visibleLists False Mod (st_lists ex_state) = st_lists ex_state
   \<and> findIndex (\<lambda>c. kc_id c = ''c3'') (kl_cards (hd ex_lists)) = 2
   \<and> findIndex (\<lambda>c. kc_id c = ''c1'') (kl_cards (hd ex_lists)) = 0
   \<and> handleDragEnd (boardProps ex_state Mod) ''c3'' (Some ''c1'') = NoEffect
   \<and> boardDragEnd ex_env ex_state Mod ''c3'' (Some ''c1'') = ex_state"
  by (simp add: ex_state_def ex_findActiveList ex_findOverList boardDragEnd_def applyEffect_def
        handleDragEnd_def boardProps_def startsWith_def visibleLists_def)
     (simp add: ex_lists_def ex_snapshot_card_def)

theorem mod_reorder_within_column_witness:
  "boardDragEnd ex_env ex_state_private Mod ''c3'' (Some ''c1'')
     = fst (updateCardPosition ex_env ex_state_private ''c3'' ''todo'' 0)"
proof -
  let ?l = "(hd ex_lists)\<lparr> kl_type := Closed \<rparr>"
  have 1: "findActiveList (st_lists ex_state_private) ''c3'' = Some ?l"
    by (simp add: ex_state_private_def findActiveList_def ex_lists_def ex_snapshot_card_def)
  have 2: "findOverList (st_lists ex_state_private) ''c1'' = Some ?l"
    by (simp add: ex_state_private_def findOverList_def ex_lists_def ex_snapshot_card_def)
  have 3: "kl_id ?l = kl_id ?l" by simp
  have 4: "findIndex (\<lambda>c. kc_id c = ''c3'') (kl_cards ?l)
             \<noteq> findIndex (\<lambda>c. kc_id c = ''c1'') (kl_cards ?l)"
    by (simp add: ex_lists_def ex_snapshot_card_def)
  show ?thesis
    using mod_reorder_within_column[OF ex_not_list_drag(3) 1 2 3 4, of ex_env]
    by (simp add: ex_lists_def ex_snapshot_card_def)
qed

text \<open>
  C4. For a viewer with role \<^verbatim>\<open>default\<close>, whether or not the board is shown as a
  public view, the visible columns are exactly the columns of type \<^verbatim>\<open>open\<close>, in
  their order.
\<close>

theorem visibleLists_default:
  "visibleLists isPublicView Default lsts = filter (\<lambda>list. kl_type list = Open) lsts"
  by (simp add: visibleLists_def)


section \<open>Properties of the engine\<close>

lemma updateCard_row_same:
  "cr_list_id r = l \<Longrightarrow> cr_position r = p \<Longrightarrow>
   updateCard_row \<lparr> cu_title = None, cu_description = None, cu_position = Some p,
       cu_due_date = None, cu_labels = None, cu_attachments = None,
       cu_members = None, cu_list_id = Some l \<rparr> r = r"
  by (simp add: updateCard_row_def coalesce_def coalesce_null_def)

lemma updateCard_same_place:
  assumes "\<forall>r\<in>set (db_cards db). cr_id r = cardId \<longrightarrow> cr_list_id r = l \<and> cr_position r = p"
  shows "fst (updateCard db cardId
            \<lparr> cu_title = None, cu_description = None, cu_position = Some p,
              cu_due_date = None, cu_labels = None, cu_attachments = None,
              cu_members = None, cu_list_id = Some l \<rparr>) = db"
proof -
  have "map (\<lambda>r. if cr_id r = cardId
                  then updateCard_row \<lparr> cu_title = None, cu_description = None, cu_position = Some p,
                         cu_due_date = None, cu_labels = None, cu_attachments = None,
                         cu_members = None, cu_list_id = Some l \<rparr> r
                  else r) (db_cards db) = db_cards db"
    using assms by (intro map_idI) (simp add: updateCard_row_same)
  then show ?thesis by (simp add: updateCard_def)
qed

lemma updateCardPosition_events:
  "st_events (fst (updateCardPosition e st cardId newListId newPosition)) = st_events st"
  by (simp add: updateCardPosition_def Let_def split: option.splits)

lemma updateCardPosition_localStorage:
  "st_localStorage (fst (updateCardPosition e st cardId newListId newPosition)) = st_localStorage st"
  by (simp add: updateCardPosition_def Let_def split: option.splits)

text \<open>
  Where a move to the card's own place does change nothing. Called with the list
  that holds the card in the snapshot and with the card's index there,
  \<^verbatim>\<open>updateCardPosition\<close> leaves the store as it is and creates no record when the
  store has that list and that index as the card's position; and on the board a drag
  that ends on the card's own list at its own index invokes nothing.
\<close>

lemma same_place_noop_on_dense_store:
  assumes "findActiveList (st_lists st) cardId = Some l"
      and "kl_id l = listId"
      and "findIndex (\<lambda>c. kc_id c = cardId) (kl_cards l) = idx"
  shows "((\<forall>r\<in>set (db_cards (st_db st)).
             cr_id r = cardId \<longrightarrow> cr_list_id r = listId \<and> cr_position r = idx) \<longrightarrow>
          st_db (fst (updateCardPosition e st cardId listId idx)) = st_db st
          \<and> st_created (fst (updateCardPosition e st cardId listId idx)) = st_created st)
       \<and> (\<not> (startsWith cardId ''list-'' \<and> startsWith overId ''list-'')
            \<and> findOverList (st_lists st) overId = Some overList
            \<and> kl_id overList = listId
            \<and> findIndex (\<lambda>c. kc_id c = overId) (kl_cards l) = idx \<longrightarrow>
          boardDragEnd e st role cardId (Some overId) = st)"
proof (intro conjI impI)
  assume "\<forall>r\<in>set (db_cards (st_db st)).
             cr_id r = cardId \<longrightarrow> cr_list_id r = listId \<and> cr_position r = idx"
  then have "fst (updateCard (st_db st) cardId
            \<lparr> cu_title = None, cu_description = None, cu_position = Some idx,
              cu_due_date = None, cu_labels = None, cu_attachments = None,
              cu_members = None, cu_list_id = Some listId \<rparr>) = st_db st"
    by (rule updateCard_same_place)
  then show "st_db (fst (updateCardPosition e st cardId listId idx)) = st_db st"
        and "st_created (fst (updateCardPosition e st cardId listId idx)) = st_created st"
    using assms
    by (simp_all add: updateCardPosition_def findActiveList_def api_updateCard_def Let_def
          split: option.splits)
next
  assume a: "\<not> (startsWith cardId ''list-'' \<and> startsWith overId ''list-'')
            \<and> findOverList (st_lists st) overId = Some overList
            \<and> kl_id overList = listId
            \<and> findIndex (\<lambda>c. kc_id c = overId) (kl_cards l) = idx"
  have "handleDragEnd (boardProps st role) cardId (Some overId) = NoEffect"
    using assms a
    by (intro handleDragEnd_same_index[where activeList = l and overList = overList])
       (simp_all add: boardProps_simps)
  then show "boardDragEnd e st role cardId (Some overId) = st"
    by (simp add: boardDragEnd_def applyEffect_def)
qed


lemma joined_cards:
  assumes "l \<in> set (db_lists db)" and "lr_board_id l = b"
  shows "filter (\<lambda>c. cr_list_id c = lr_id l)
           (sort_key cr_position
              (filter (\<lambda>c. list_ex (\<lambda>l'. lr_id l' = cr_list_id c \<and> lr_board_id l' = b) (db_lists db))
                 (db_cards db)))
         = filter (\<lambda>c. cr_list_id c = lr_id l) (sort_key cr_position (db_cards db))"
proof -
  have "filter (\<lambda>c. cr_list_id c = lr_id l)
           (filter (\<lambda>c. list_ex (\<lambda>l'. lr_id l' = cr_list_id c \<and> lr_board_id l' = b) (db_lists db))
              (sort_key cr_position (db_cards db)))
        = filter (\<lambda>c. cr_list_id c = lr_id l) (sort_key cr_position (db_cards db))"
    unfolding filter_filter
    using assms by (intro filter_cong refl) (auto simp add: list_ex_iff)
  then show ?thesis by (simp add: filter_sort)
qed

lemma pull_is_storedBoard:
  "loadCardActions e db (server_getLists db) = storedBoard (\<lambda>cid. env_ok e (ReqGetActions cid)) db"
proof -
  let ?B = "\<lambda>l. lr_board_id l = ''default''"
  have lsts: "sort_key lr_position (filter ?B (db_lists db))
                = filter ?B (sort_key lr_position (db_lists db))"
    by (simp add: filter_sort)
  have "loadCardActions e db (server_getLists db) =
          map (\<lambda>l. \<lparr> kl_id = lr_id l,
                kl_title = lr_title l,
                kl_type = lr_type l,
                kl_cards = map (storedCard (\<lambda>cid. env_ok e (ReqGetActions cid)) db)
                             (filter (\<lambda>r. cr_list_id r = lr_id l)
                                (sort_key cr_position (db_cards db))),
                kl_cardLimit = (if lr_card_limit l = Some 0 then None else lr_card_limit l) \<rparr>)
            (sort_key lr_position (filter ?B (db_lists db)))"
    unfolding loadCardActions_def server_getLists_def getListsByBoard_def
              DEFAULT_BOARD_ID_def Let_def map_map
  proof (intro map_cong refl)
    fix l assume "l \<in> set (sort_key lr_position (filter ?B (db_lists db)))"
    then have l: "l \<in> set (db_lists db)" "lr_board_id l = ''default''" by simp_all
    show "((\<lambda>list. list\<lparr>kl_cards :=
                      map (\<lambda>c. case api_getCardActions e db (kc_id c) of
                                  None \<Rightarrow> c\<lparr>kc_actions := Some (case kc_actions c of None \<Rightarrow> [] | Some a \<Rightarrow> a)\<rparr>
                                | Some actions \<Rightarrow>
                                    c\<lparr>kc_actions := Some (if actions \<noteq> [] then actions
                                                          else case kc_actions c of None \<Rightarrow> [] | Some a \<Rightarrow> a)\<rparr>)
                       (kl_cards list)\<rparr>) \<circ>
           ((\<lambda>list. list\<lparr>kl_cards := map (\<lambda>c. c\<lparr>kc_labels := normalizeLabels (kc_labels c)\<rparr>) (kl_cards list)\<rparr>) \<circ>
            (\<lambda>list. \<lparr>kl_id = lr_id list, kl_title = lr_title list, kl_type = lr_type list,
                      kl_cards = map convertCardRowToKanbanCard
                         (filter (\<lambda>c. cr_list_id c = lr_id list)
                           (sort_key cr_position
                             (filter (\<lambda>c. list_ex (\<lambda>l. lr_id l = cr_list_id c \<and> lr_board_id l = ''default'') (db_lists db))
                               (db_cards db)))),
                      kl_cardLimit = case lr_card_limit list of None \<Rightarrow> None
                                     | Some n \<Rightarrow> if n = 0 then None else Some n\<rparr>))) l =
          \<lparr>kl_id = lr_id l, kl_title = lr_title l, kl_type = lr_type l,
           kl_cards = map (storedCard (\<lambda>cid. env_ok e (ReqGetActions cid)) db)
                       (filter (\<lambda>r. cr_list_id r = lr_id l) (sort_key cr_position (db_cards db))),
           kl_cardLimit = if lr_card_limit l = Some 0 then None else lr_card_limit l\<rparr>"
      apply (simp add: joined_cards[OF l] comp_def split: option.splits)
      apply (auto simp add: storedCard_def convertCardRowToKanbanCard_def normalizeLabels_def
               api_getCardActions_def getCardActions_def filter_sort
             split: option.splits jsval.splits)
      done
  qed
  then show ?thesis
    by (simp add: storedBoard_def lsts)
qed

text \<open>
  C8, as the code has it. Whatever the snapshot of a tab is and whatever the store has
  become, one run of the periodic sync whose request for the lists succeeds leaves
  as snapshot the board the store holds: its lists and cards in the order of their
  positions, every card with its ledger rows when the request for that card's
  actions succeeded and with no actions when it failed. A run whose request for the
  lists fails leaves the tab as it was. In both cases the store is not written and
  nothing is broadcast.
\<close>

theorem periodicSync_store_content:
  "(env_ok e ReqGetLists \<longrightarrow>
      st_lists (periodicSync e (st\<lparr> st_db := newDb \<rparr>))
        = storedBoard (\<lambda>cid. env_ok e (ReqGetActions cid)) newDb)
   \<and> (\<not> env_ok e ReqGetLists \<longrightarrow>
        periodicSync e (st\<lparr> st_db := newDb \<rparr>) = st\<lparr> st_db := newDb \<rparr>)
   \<and> st_db (periodicSync e (st\<lparr> st_db := newDb \<rparr>)) = newDb
   \<and> st_events (periodicSync e (st\<lparr> st_db := newDb \<rparr>)) = st_events st"
  using pull_is_storedBoard[of e newDb]
  by (simp add: periodicSync_def api_getListsByBoard_def Let_def)

theorem periodicSync_store_content_witness:
  "map (\<lambda>l. (kl_id l, map (\<lambda>c. (kc_id c, kc_actions c)) (kl_cards l)))
     (st_lists (periodicSync ex_env (ex_state\<lparr> st_db := ex_db_changed \<rparr>)))
     = [(''todo'', [(''c1'', Some [ex_action]), (''c3'', Some [])]),
        (''staff'', [(''c2'', Some [])])]
   \<and> periodicSync ex_env_unreachable (ex_state\<lparr> st_db := ex_db_changed \<rparr>)
       = ex_state\<lparr> st_db := ex_db_changed \<rparr>"
proof -
  have ok: "env_ok ex_env ReqGetLists" "\<not> env_ok ex_env_unreachable ReqGetLists"
    by (simp_all add: ex_env_def ex_env_unreachable_def)
  have board: "map (\<lambda>l. (kl_id l, map (\<lambda>c. (kc_id c, kc_actions c)) (kl_cards l)))
                 (storedBoard (\<lambda>cid. env_ok ex_env (ReqGetActions cid)) ex_db_changed)
     = [(''todo'', [(''c1'', Some [ex_action]), (''c3'', Some [])]),
        (''staff'', [(''c2'', Some [])])]"
    by code_simp
  show ?thesis
    using periodicSync_store_content[where e = ex_env and st = ex_state and newDb = ex_db_changed]
          periodicSync_store_content[where e = ex_env_unreachable and st = ex_state
            and newDb = ex_db_changed]
    by (simp add: ok board)
qed

theorem periodicSync_store_content_counterexample:
  "env_ok ex_env_no_ledger ReqGetLists
   \<and> filter (\<lambda>a. ca_cardId a = ''c1'') (db_card_actions ex_db_changed) = [ex_action]
   \<and> map (\<lambda>l. (kl_id l, map (\<lambda>c. (kc_id c, kc_actions c)) (kl_cards l)))
        (st_lists (periodicSync ex_env_no_ledger (ex_state\<lparr> st_db := ex_db_changed \<rparr>)))
       = [(''todo'', [(''c1'', Some []), (''c3'', Some [])]), (''staff'', [(''c2'', Some [])])]
   \<and> st_lists (periodicSync ex_env_no_ledger (ex_state\<lparr> st_db := ex_db_changed \<rparr>))
       \<noteq> storedBoard (\<lambda>cid. True) ex_db_changed
   \<and> st_lists (periodicSync ex_env_unreachable (ex_state\<lparr> st_db := ex_db_changed \<rparr>))
       = st_lists ex_state
   \<and> st_lists (periodicSync ex_env_unreachable (ex_state\<lparr> st_db := ex_db_changed \<rparr>))
       \<noteq> storedBoard (\<lambda>cid. True) ex_db_changed"
  by code_simp

lemma updateCardPosition_one_row:
  assumes "env_ok e ReqUpdateCard"
  shows "db_cards (st_db (fst (updateCardPosition e st cardId newListId newPosition))) =
           map (\<lambda>r. if cr_id r = cardId
                     then r\<lparr> cr_position := newPosition, cr_list_id := newListId \<rparr>
                     else r) (db_cards (st_db st))"
proof -
  have "db_cards (st_db (fst (updateCardPosition e st cardId newListId newPosition))) =
          db_cards (fst (updateCard (st_db st) cardId
             \<lparr> cu_title = None, cu_description = None, cu_position = Some newPosition,
               cu_due_date = None, cu_labels = None, cu_attachments = None,
               cu_members = None, cu_list_id = Some newListId \<rparr>))"
    using assms
    by (simp add: updateCardPosition_def api_updateCard_def Let_def api_createCardAction_def
          createCardAction_def split: option.splits)
  then show ?thesis
    by (simp add: updateCard_def updateCard_row_def coalesce_def coalesce_null_def)
qed

lemma addCard_events:
  "st_events (fst (addCard e st listId cardData)) = st_events st"
  by (simp add: addCard_def Let_def split: option.splits)

lemma updateLists_events:
  "st_events (updateLists e st newLists) =
     st_events st @ (if env_ok e ReqSaveKanban then [(newLists, int (env_now e))] else [])"
  by (simp add: updateLists_def api_saveKanbanData_def)

lemma handleBoardUpdate_newer:
  "handleBoardUpdate st (updatedLists, timestamp) =
     (if st_lastUpdate st < timestamp
      then st\<lparr> st_lists := updatedLists, st_lastUpdate := timestamp \<rparr> else st)"
  by (simp add: handleBoardUpdate_def)

lemma reorder_through_updateLists_is_dense:
  "handleDragEnd ((boardProps ex_state Admin)\<lparr> bp_onCardPositionUpdate := False \<rparr>)
       ''c3'' (Some ''c1'')
     = ListsUpdate ((hd ex_lists)\<lparr> kl_cards := [ex_snapshot_card ''c3'', ex_snapshot_card ''c1'',
                                              ex_snapshot_card ''c2''] \<rparr> # tl ex_lists)
   \<and> map (\<lambda>r. (cr_id r, cr_position r))
        (db_cards (st_db (updateLists ex_env ex_state
           ((hd ex_lists)\<lparr> kl_cards := [ex_snapshot_card ''c3'', ex_snapshot_card ''c1'',
                                       ex_snapshot_card ''c2''] \<rparr> # tl ex_lists))))
       = [(''c3'', 0), (''c1'', 1), (''c2'', 2)]"
  by code_simp

lemma delete_leaves_gap:
  "map_option (\<lambda>d. map (\<lambda>r. (cr_id r, cr_position r)) (db_cards d))
     (api_deleteCard ex_env ex_db ''c2'') = Some [(''c1'', 0), (''c3'', 2)]"
  by code_simp

text \<open>
  C1 fails on the code. On the small board an admin drags \<^verbatim>\<open>c3\<close> onto \<^verbatim>\<open>c1\<close>
  in the list \<^verbatim>\<open>todo\<close>; every request succeeds. \<^verbatim>\<open>handleDragOver\<close> does nothing
  within one list, and \<^verbatim>\<open>handleDragEnd\<close> calls \<^verbatim>\<open>updateCardPosition\<close>, which
  sets the position of \<^verbatim>\<open>c3\<close> to 0 and renumbers no other card: the stored
  positions of the list are 0, 1, 0.
\<close>

theorem move_duplicates_position:
  "map (\<lambda>r. (cr_id r, cr_position r))
     (filter (\<lambda>r. cr_list_id r = ''todo'')
        (db_cards (st_db
           (boardDragEnd ex_env (boardDragOver ex_env ex_state Admin ''c3'' (Some ''c1''))
              Admin ''c3'' (Some ''c1'')))))
   = [(''c1'', 0), (''c2'', 1), (''c3'', 0)]"
  by code_simp

text \<open>
  C9 fails on the code. On the small board an admin drags \<^verbatim>\<open>c3\<close> onto \<^verbatim>\<open>c1\<close>
  in the list \<^verbatim>\<open>todo\<close>; every request succeeds. The snapshot of the tab changes
  and no \<^verbatim>\<open>board-updated\<close> event is dispatched.
\<close>

theorem move_not_broadcast:
  "st_lists (boardDragEnd ex_env (boardDragOver ex_env ex_state Admin ''c3'' (Some ''c1''))
               Admin ''c3'' (Some ''c1'')) \<noteq> st_lists ex_state
   \<and> st_events (boardDragEnd ex_env (boardDragOver ex_env ex_state Admin ''c3'' (Some ''c1''))
                  Admin ''c3'' (Some ''c1'')) = []"
  by code_simp

lemma logCardMoved_cases:
  "logCardMoved e k cardId f t = None \<longleftrightarrow> env_currentUser e = None"
  by (simp add: logCardMoved_def createAction_def split: option.splits prod.splits)

lemma logCardMoved_Some:
  "logCardMoved e k cardId f t = Some a \<Longrightarrow> ca_action a = Moved \<and> ca_cardId a = cardId"
  by (auto simp add: logCardMoved_def createAction_def split: option.splits prod.splits)

lemma api_updateCard_actions:
  "api_updateCard e db cardId u = Some db1 \<Longrightarrow> db_card_actions db1 = db_card_actions db"
  by (auto simp add: api_updateCard_def updateCard_def split: if_splits)

lemma api_createCardAction_result:
  "(case api_createCardAction e db a of None \<Rightarrow> db | Some db2 \<Rightarrow> db2) =
     db\<lparr> db_card_actions := db_card_actions db @ (if env_ok e ReqCreateAction then [a] else []) \<rparr>"
  by (simp add: api_createCardAction_def createCardAction_def)

text \<open>
  What a direct call of \<^verbatim>\<open>updateCardPosition\<close> logs. When the store accepts the
  update and the snapshot holds both the card and the list moved to, the records
  created are: one, of kind \<^verbatim>\<open>moved\<close> and for this card, when the list moved to
  differs from the card's list in the snapshot and a user is authenticated; none
  otherwise. The ledger of the store receives the same records when its request
  succeeds.
\<close>

lemma updateCardPosition_ledger_records:
  assumes "env_ok e ReqUpdateCard"
      and "findActiveList (st_lists st) cardId = Some oldList"
      and "find (\<lambda>l. kl_id l = newListId) (st_lists st) = Some newList"
  shows "\<exists>new. st_created (fst (updateCardPosition e st cardId newListId newPosition)) = st_created st @ new
       \<and> length new = (if kl_id oldList \<noteq> newListId \<and> env_currentUser e \<noteq> None then 1 else 0)
       \<and> list_all (\<lambda>a. ca_action a = Moved \<and> ca_cardId a = cardId) new
       \<and> db_card_actions (st_db (fst (updateCardPosition e st cardId newListId newPosition)))
           = db_card_actions (st_db st) @ (if env_ok e ReqCreateAction then new else [])"
proof -
  obtain db1 where db1: "api_updateCard e (st_db st) cardId
                \<lparr> cu_title = None, cu_description = None, cu_position = Some newPosition,
                  cu_due_date = None, cu_labels = None, cu_attachments = None,
                  cu_members = None, cu_list_id = Some newListId \<rparr> = Some db1"
    using assms(1) by (simp add: api_updateCard_def)
  note acts = api_updateCard_actions[OF db1]
  show ?thesis
  proof (cases "kl_id oldList \<noteq> newListId")
    case False
    then show ?thesis
      using assms db1 acts
      by (simp add: updateCardPosition_def findActiveList_def Let_def split: option.splits)
  next
    case True
    show ?thesis
    proof (cases "logCardMoved e 0 cardId (kl_title oldList) (kl_title newList)")
      case None
      then have "env_currentUser e = None" by (simp add: logCardMoved_cases)
      then show ?thesis
        using assms db1 acts True None
        by (simp add: updateCardPosition_def findActiveList_def Let_def split: option.splits)
    next
      case (Some a)
      then have u: "env_currentUser e \<noteq> None"
        using logCardMoved_cases[of e 0 cardId "kl_title oldList" "kl_title newList"] by simp
      have "st_created (fst (updateCardPosition e st cardId newListId newPosition)) = st_created st @ [a]
          \<and> db_card_actions (st_db (fst (updateCardPosition e st cardId newListId newPosition)))
           = db_card_actions (st_db st) @ (if env_ok e ReqCreateAction then [a] else [])"
        using assms db1 acts True Some
        by (simp add: updateCardPosition_def findActiveList_def Let_def api_createCardAction_result
              split: option.splits)
      then show ?thesis
        using True u logCardMoved_Some[OF Some] by (intro exI[of _ "[a]"]) simp
    qed
  qed
qed

text \<open>
  C7 fails on the code. On the small board an authenticated admin drags \<^verbatim>\<open>c1\<close>
  from the list \<^verbatim>\<open>todo\<close> and drops it on the list \<^verbatim>\<open>staff\<close>; every request
  succeeds. \<^verbatim>\<open>handleDragOver\<close> moves the card through \<^verbatim>\<open>updateLists\<close>, which
  saves the board and logs nothing. \<^verbatim>\<open>handleDragEnd\<close> then finds the card already
  in \<^verbatim>\<open>staff\<close> and calls \<^verbatim>\<open>updateCardPosition\<close> with that same list, so the
  test \<^verbatim>\<open>oldList.id !== newListId\<close> fails. The store has the card in the other
  list, no record was created and the ledger is empty.
\<close>

theorem board_move_not_logged:
  "env_currentUser ex_env = Some (''u1'', ''alice'')
   \<and> map (\<lambda>l. (kl_id l, map kc_id (kl_cards l)))
        (st_lists (boardDragOver ex_env ex_state Admin ''c1'' (Some ''staff'')))
       = [(''todo'', [''c2'', ''c3'']), (''staff'', [''c1''])]
   \<and> st_created (boardDragOver ex_env ex_state Admin ''c1'' (Some ''staff'')) = []
   \<and> handleDragEnd (boardProps (boardDragOver ex_env ex_state Admin ''c1'' (Some ''staff'')) Admin)
        ''c1'' (Some ''staff'')
       = CardPositionUpdate ''c1'' ''staff'' (- 1)
   \<and> map (\<lambda>r. (cr_id r, cr_list_id r))
        (db_cards (st_db
           (boardDragEnd ex_env (boardDragOver ex_env ex_state Admin ''c1'' (Some ''staff''))
              Admin ''c1'' (Some ''staff''))))
       = [(''c2'', ''todo''), (''c3'', ''todo''), (''c1'', ''staff'')]
   \<and> st_created
        (boardDragEnd ex_env (boardDragOver ex_env ex_state Admin ''c1'' (Some ''staff''))
           Admin ''c1'' (Some ''staff'')) = []
   \<and> db_card_actions (st_db
        (boardDragEnd ex_env (boardDragOver ex_env ex_state Admin ''c1'' (Some ''staff''))
           Admin ''c1'' (Some ''staff''))) = []"
  by code_simp

lemma addCard_failed:
  "\<not> env_ok e ReqCreateCard \<Longrightarrow>
     addCard e st listId cardData = (st\<lparr> st_error := Some (env_message e) \<rparr>, Some None)"
  by (simp add: addCard_def api_createCard_def Let_def)

lemma generateCardId_nonempty: "generateCardId e \<noteq> []"
  by (simp add: generateCardId_def)

lemma api_createCard_has_card:
  "api_createCard e db body = Some db1 \<Longrightarrow> cr_id body \<noteq> [] \<Longrightarrow>
     list_ex (\<lambda>r. cr_id r = cr_id body \<and> cr_list_id r = cr_list_id body) (db_cards db1)"
  by (auto simp add: api_createCard_def createCard_def list_ex_iff split: if_splits)

lemma api_createCardAction_cards:
  "api_createCardAction e db a = Some db2 \<Longrightarrow> db_cards db2 = db_cards db"
  by (auto simp add: api_createCardAction_def createCardAction_def split: if_splits)

lemma addCard_db_cards:
  assumes "api_createCard e (st_db st) body = Some db1"
      and "body = \<lparr> cr_id = generateCardId e,
                  cr_list_id = listId,
                  cr_title = cd_title cardData,
                  cr_description = cd_description cardData,
                  cr_position = (case find (\<lambda>l. kl_id l = listId) (st_lists st) of
                                   None \<Rightarrow> 0 | Some l \<Rightarrow> int (length (kl_cards l))),
                  cr_due_date = map_option (\<lambda>ms. ms div 1000) (cd_dueDate cardData),
                  cr_labels = cd_labels cardData,
                  cr_attachments = cd_attachments cardData,
                  cr_members = cd_members cardData \<rparr>"
  shows "db_cards (st_db (fst (addCard e st listId cardData))) = db_cards db1"
  using assms(1) unfolding assms(2)
  by (simp add: addCard_def Let_def split: option.splits)
     (auto dest: api_createCardAction_cards)

lemma updateLists_failed:
  "\<not> env_ok e ReqSaveKanban \<Longrightarrow>
     updateLists e st newLists =
       st\<lparr> st_localStorage := Some newLists, st_lists := newLists,
           st_lastUpdate := int (env_now e) \<rparr>"
  by (simp add: updateLists_def api_saveKanbanData_def)

text \<open>
  C2, as the code has it. When the request that creates the card fails,
  \<^verbatim>\<open>addCard\<close> sets the error and returns \<^verbatim>\<open>null\<close>; the snapshot, the fallback
  cache and the store are as before. When it succeeds, the store holds a card with
  the identifier generated by the client, in the list asked for. It is
  \<^verbatim>\<open>updateLists\<close>, the save of a whole board (the way a copied card is created),
  that falls back: when its request fails, the lists it was given, new cards
  included, become the snapshot and are written to the fallback cache.
\<close>

theorem addCard_store_write:
  "(\<not> env_ok e ReqCreateCard \<longrightarrow>
      addCard e st listId cardData = (st\<lparr> st_error := Some (env_message e) \<rparr>, Some None))
   \<and> (env_ok e ReqCreateCard \<longrightarrow>
        list_ex (\<lambda>r. cr_id r = generateCardId e \<and> cr_list_id r = listId)
          (db_cards (st_db (fst (addCard e st listId cardData)))))
   \<and> (\<not> env_ok e ReqSaveKanban \<longrightarrow>
        st_lists (updateLists e st newLists) = newLists
        \<and> st_localStorage (updateLists e st newLists) = Some newLists
        \<and> st_db (updateLists e st newLists) = st_db st)"
proof (intro conjI impI)
  assume "\<not> env_ok e ReqCreateCard"
  then show "addCard e st listId cardData = (st\<lparr> st_error := Some (env_message e) \<rparr>, Some None)"
    by (rule addCard_failed)
next
  let ?body = "\<lparr> cr_id = generateCardId e,
                  cr_list_id = listId,
                  cr_title = cd_title cardData,
                  cr_description = cd_description cardData,
                  cr_position = (case find (\<lambda>l. kl_id l = listId) (st_lists st) of
                                   None \<Rightarrow> 0 | Some l \<Rightarrow> int (length (kl_cards l))),
                  cr_due_date = map_option (\<lambda>ms. ms div 1000) (cd_dueDate cardData),
                  cr_labels = cd_labels cardData,
                  cr_attachments = cd_attachments cardData,
                  cr_members = cd_members cardData \<rparr>"
  assume "env_ok e ReqCreateCard"
  then obtain db1 where db1: "api_createCard e (st_db st) ?body = Some db1"
    by (simp add: api_createCard_def)
  have "list_ex (\<lambda>r. cr_id r = cr_id ?body \<and> cr_list_id r = cr_list_id ?body) (db_cards db1)"
    using db1 by (rule api_createCard_has_card) (simp add: generateCardId_nonempty)
  then show "list_ex (\<lambda>r. cr_id r = generateCardId e \<and> cr_list_id r = listId)
          (db_cards (st_db (fst (addCard e st listId cardData))))"
    using addCard_db_cards[OF db1 refl] by simp
next
  assume f: "\<not> env_ok e ReqSaveKanban"
  show "st_lists (updateLists e st newLists) = newLists"
       "st_localStorage (updateLists e st newLists) = Some newLists"
       "st_db (updateLists e st newLists) = st_db st"
    by (simp_all add: updateLists_failed[OF f])
qed

theorem addCard_store_write_witness:
  "addCard ex_env_unreachable ex_state ''todo'' ex_card_data
     = (ex_state\<lparr> st_error := Some ''API request failed'' \<rparr>, Some None)
   \<and> list_ex (\<lambda>r. cr_id r = ''card_7_r'' \<and> cr_list_id r = ''todo'')
        (db_cards (st_db (fst (addCard ex_env ex_state ''todo'' ex_card_data))))
   \<and> st_lists (updateLists ex_env_unreachable ex_state (tl ex_lists)) = tl ex_lists
   \<and> st_localStorage (updateLists ex_env_unreachable ex_state (tl ex_lists)) = Some (tl ex_lists)"
proof -
  have 1: "\<not> env_ok ex_env_unreachable ReqCreateCard" "env_ok ex_env ReqCreateCard"
          "\<not> env_ok ex_env_unreachable ReqSaveKanban"
    by (simp_all add: ex_env_unreachable_def ex_env_def)
  have 2: "env_message ex_env_unreachable = ''API request failed''"
    by (simp add: ex_env_unreachable_def ex_env_def)
  have 3: "generateCardId ex_env = ''card_7_r''"
    by code_simp
  show ?thesis
    using addCard_store_write[of ex_env_unreachable ex_state "''todo''" ex_card_data "tl ex_lists"]
          addCard_store_write[of ex_env ex_state "''todo''" ex_card_data "tl ex_lists"]
    by (simp add: 1 2 3)
qed

theorem addCard_unreachable_counterexample:
  "\<not> env_ok ex_env_unreachable ReqCreateCard
   \<and> st_lists (fst (addCard ex_env_unreachable ex_state ''todo'' ex_card_data)) = st_lists ex_state
   \<and> \<not> list_ex (\<lambda>l. list_ex (\<lambda>c. kc_id c = generateCardId ex_env_unreachable) (kl_cards l))
          (st_lists (fst (addCard ex_env_unreachable ex_state ''todo'' ex_card_data)))
   \<and> st_localStorage (fst (addCard ex_env_unreachable ex_state ''todo'' ex_card_data)) = None"
  by code_simp

end
